theory Spec2Isabelle
  imports Main "HOL-Library.Word" "HOL-Library.Monad_Syntax"
begin

unbundle bit_operations_syntax

section \<open>Bytes, buffers and unaligned reads\<close>

text \<open>
  The decoder of the OCP telemetry logs (\<^verbatim>\<open>lib/ocptelemetry.cpp\<close>,
  \<^verbatim>\<open>src/ocptelemetryprint.cpp\<close>) works on raw byte buffers through pointers.
  A buffer is a list of bytes; a pointer into it is the buffer together with a byte
  offset. The machine integers of the source keep their widths: \<^verbatim>\<open>uint8_t\<close> is
  \<^typ>\<open>8 word\<close>, \<^verbatim>\<open>uint16_t\<close> is \<^typ>\<open>16 word\<close>, \<^verbatim>\<open>uint32_t\<close> is
  \<^typ>\<open>32 word\<close>, and \<^verbatim>\<open>uint64_t\<close> and \<^verbatim>\<open>size_t\<close> (LP64) are \<^typ>\<open>64 word\<close>.
  The host is little-endian, as the source assumes when it reads struct fields directly.
\<close>

type_synonym u8 = "8 word"
type_synonym u16 = "16 word"
type_synonym u32 = "32 word"
type_synonym u64 = "64 word"

text \<open>
  A read of \<open>n\<close> bytes at offset \<open>off\<close>. A read that leaves the buffer is undefined
  behaviour in C; the model makes it the value \<open>None\<close>, and every function that reads
  through a pointer propagates it.
\<close>

definition rd :: "u8 list \<Rightarrow> nat \<Rightarrow> nat \<Rightarrow> u8 list option" where
  "rd mem off n = (if off + n \<le> length mem then Some (take n (drop off mem)) else None)"

text \<open>
  Modelled from the spec: the accessors of \<^verbatim>\<open>smartmon/sg_unaligned.h\<close>, which is
  not among the sources. Each reads 2, 4 or 8 bytes at the pointer and assembles them in
  the byte order its name gives (spec 6.1: explicit little-endian accessors, big-endian
  only for the SAS timestamp). The argument is the buffer from the pointer on.
\<close>

definition sg_get_unaligned_be16 :: "u8 list \<Rightarrow> u16" where
  "sg_get_unaligned_be16 p = word_cat (p ! 0) (p ! 1)"

definition sg_get_unaligned_be32 :: "u8 list \<Rightarrow> u32" where
  "sg_get_unaligned_be32 p =
     word_cat (word_cat (p ! 0) (p ! 1) :: u16) (word_cat (p ! 2) (p ! 3) :: u16)"

definition sg_get_unaligned_le16 :: "u8 list \<Rightarrow> u16" where
  "sg_get_unaligned_le16 p = word_cat (p ! 1) (p ! 0)"

definition sg_get_unaligned_le32 :: "u8 list \<Rightarrow> u32" where
  "sg_get_unaligned_le32 p =
     word_cat (word_cat (p ! 3) (p ! 2) :: u16) (word_cat (p ! 1) (p ! 0) :: u16)"

definition sg_get_unaligned_le64 :: "u8 list \<Rightarrow> u64" where
  "sg_get_unaligned_le64 p =
     word_cat (sg_get_unaligned_le32 (drop 4 p)) (sg_get_unaligned_le32 p)"

text \<open>The value of a byte string read as one unsigned number, in either byte order.\<close>

fun le_value :: "u8 list \<Rightarrow> nat" where
  "le_value [] = 0"
| "le_value (b # bs) = unat b + 256 * le_value bs"

definition be_value :: "u8 list \<Rightarrow> nat" where
  "be_value bs = le_value (rev bs)"

text \<open>C strings: a \<^verbatim>\<open>char\<close> is a byte; names are shown as Isabelle strings.\<close>

definition c_str :: "u8 list \<Rightarrow> string" where
  "c_str bs = map (\<lambda>b. char_of (unat b)) bs"

lemma unat_u8_lt: "unat (a :: u8) < 256"
  using unsigned_less [of a, where 'a = nat] by simp

lemma unat_u16_lt: "unat (a :: u16) < 65536"
  using unsigned_less [of a, where 'a = nat] by simp

lemma unat_u32_lt: "unat (a :: u32) < 4294967296"
  using unsigned_less [of a, where 'a = nat] by simp

lemma unat_ucast_8_16: "unat (ucast (a :: u8) :: u16) = unat a"
  using unat_u8_lt [of a] by (simp add: unsigned_ucast_eq take_bit_nat_eq_self)

lemma unat_ucast_16_32: "unat (ucast (a :: u16) :: u32) = unat a"
  using unat_u16_lt [of a] by (simp add: unsigned_ucast_eq take_bit_nat_eq_self)

lemma unat_ucast_16_64: "unat (ucast (a :: u16) :: u64) = unat a"
  using unat_u16_lt [of a] by (simp add: unsigned_ucast_eq take_bit_nat_eq_self)

lemma unat_ucast_32_64: "unat (ucast (a :: u32) :: u64) = unat a"
  using unat_u32_lt [of a] by (simp add: unsigned_ucast_eq take_bit_nat_eq_self)

lemma unat_word_cat_8_8:
  "unat (word_cat (a :: u8) (b :: u8) :: u16) = unat a * 256 + unat b"
  using unat_u8_lt [of a] unat_u8_lt [of b]
  by (simp add: word_cat_eq push_bit_eq_mult unat_word_ariths unat_ucast_8_16)

lemma unat_word_cat_16_16:
  "unat (word_cat (a :: u16) (b :: u16) :: u32) = unat a * 65536 + unat b"
  using unat_u16_lt [of a] unat_u16_lt [of b]
  by (simp add: word_cat_eq push_bit_eq_mult unat_word_ariths unat_ucast_16_32)

lemma unat_be16: "unat (sg_get_unaligned_be16 [a, b]) = be_value [a, b]"
  by (simp add: sg_get_unaligned_be16_def be_value_def unat_word_cat_8_8)

lemma unat_le16: "unat (sg_get_unaligned_le16 [a, b]) = le_value [a, b]"
  by (simp add: sg_get_unaligned_le16_def unat_word_cat_8_8)

lemma unat_be32: "unat (sg_get_unaligned_be32 [a, b, c, d]) = be_value [a, b, c, d]"
  by (simp add: sg_get_unaligned_be32_def be_value_def unat_word_cat_8_8
      unat_word_cat_16_16)

lemma unat_le32: "unat (sg_get_unaligned_le32 [a, b, c, d]) = le_value [a, b, c, d]"
  by (simp add: sg_get_unaligned_le32_def unat_word_cat_8_8 unat_word_cat_16_16)

section \<open>Timestamp normalisation\<close>

text \<open>
  \<^verbatim>\<open>ocp_telemetry_timestamp_to_uint64\<close> (ocptelemetryprint.cpp, lines 29-46). The
  diagnostic printed with \<^verbatim>\<open>pout\<close> for an unknown protocol is returned beside the
  value.
\<close>

datatype diagnostic =
    Unknown_timestamp_protocol u8
  | Stat_type_not_supported
  | Data_type_not_supported

definition ocp_telemetry_timestamp_to_uint64 :: "u8 list \<Rightarrow> u16 \<Rightarrow> u64 \<times> diagnostic list" where
  "ocp_telemetry_timestamp_to_uint64 timestamp timestamp_info =
     (let protocol = (ucast (drop_bit 4 (timestamp_info AND 0x30)) :: u8) in
      if protocol = 1 then
        (let msecs_since_1970 = (ucast (sg_get_unaligned_be32 timestamp) :: u64) in
         (push_bit 16 msecs_since_1970 + ucast (sg_get_unaligned_be16 (drop 4 timestamp)), []))
      else if protocol = 2 then
        (let msecs_since_1970 = (ucast (sg_get_unaligned_le32 (drop 2 timestamp)) :: u64) in
         (push_bit 16 msecs_since_1970 + ucast (sg_get_unaligned_le16 timestamp), []))
      else (0, [Unknown_timestamp_protocol protocol]))"

lemma timestamp_protocol_field:
  "(ucast (drop_bit 4 ((i :: u16) AND 0x30)) :: u8) = ucast (drop_bit 4 i AND 3)"
proof (rule bit_word_eqI)
  fix n :: nat
  assume "n < LENGTH(8)"
  then have "n \<in> {0, 1, 2, 3, 4, 5, 6, 7}" by auto
  then show "bit (ucast (drop_bit 4 (i AND 0x30)) :: u8) n = bit (ucast (drop_bit 4 i AND 3) :: u8) n"
    by (auto simp: bit_simps)
qed

lemma protocol_ucast_eq:
  fixes x :: u16
  shows "(ucast (x AND 3) :: u8) = 1 \<longleftrightarrow> x AND 3 = 1"
    and "(ucast (x AND 3) :: u8) = 2 \<longleftrightarrow> x AND 3 = 2"
proof -
  have "unat (x AND 3) \<le> unat (3 :: u16)"
    by (rule word_and_le1 [THEN word_le_nat_alt [THEN iffD1]])
  then have small: "unat (x AND 3) < 256" by simp
  have u: "unat (ucast (x AND 3) :: u8) = unat (x AND 3)"
    using small by (simp add: unsigned_ucast_eq take_bit_nat_eq_self)
  show "(ucast (x AND 3) :: u8) = 1 \<longleftrightarrow> x AND 3 = 1"
    using u by (metis unat_1 word_unat_eq_iff)
  show "(ucast (x AND 3) :: u8) = 2 \<longleftrightarrow> x AND 3 = 2"
    using u by (simp add: word_unat_eq_iff)
qed

lemma length_6_bytes: "length ts = 6 \<Longrightarrow> \<exists>a b c d e f. ts = [a, b, c, d, e, f]"
  by (auto simp: length_Suc_conv numeral_eq_Suc)

lemma unat_shift16_add:
  fixes hi :: u32 and lo :: u16
  shows "unat (push_bit 16 (ucast hi :: u64) + ucast lo) = unat hi * 2 ^ 16 + unat lo"
  using unat_u32_lt [of hi] unat_u16_lt [of lo]
  by (simp add: push_bit_eq_mult unat_word_ariths unat_ucast_32_64 unat_ucast_16_64)

text \<open>
  Claim C1. For a 6-byte timestamp and any \<open>timestamp_info\<close>, with
  \<open>protocol = (timestamp_info >> 4) & 0x3\<close>: protocol 1 gives the big-endian 48-bit
  value (the 32-bit big-endian number of bytes 0..3 times \<open>2^16\<close> plus the 16-bit one of
  bytes 4..5), protocol 2 the little-endian 48-bit value (bytes 2..5 times \<open>2^16\<close> plus
  bytes 0..1), every other protocol the value 0 with a diagnostic. Bytes
  \<open>01 02 03 04 05 06\<close> with \<open>timestamp_info = 0x0010\<close> give \<open>0x010203040506\<close>.
\<close>

theorem timestamp_to_uint64_by_protocol:
  assumes "length timestamp = 6"
  shows "(let protocol = drop_bit 4 timestamp_info AND 3;
              r = ocp_telemetry_timestamp_to_uint64 timestamp timestamp_info
          in if protocol = 1 then
               unat (fst r) = be_value (take 4 timestamp) * 2 ^ 16 + be_value (drop 4 timestamp)
               \<and> snd r = []
             else if protocol = 2 then
               unat (fst r) = le_value (drop 2 timestamp) * 2 ^ 16 + le_value (take 2 timestamp)
               \<and> snd r = []
             else fst r = 0 \<and> snd r = [Unknown_timestamp_protocol (ucast protocol)])
         \<and> ocp_telemetry_timestamp_to_uint64 [1, 2, 3, 4, 5, 6] 0x0010 = (0x010203040506, [])"
proof -
  from assms obtain a b c d e f where ts: "timestamp = [a, b, c, d, e, f]"
    using length_6_bytes by blast
  have be: "unat (push_bit 16 (ucast (sg_get_unaligned_be32 timestamp) :: u64)
                + ucast (sg_get_unaligned_be16 (drop 4 timestamp)))
            = be_value [a, b, c, d] * 2 ^ 16 + be_value [e, f]"
    unfolding unat_shift16_add
    by (simp add: ts sg_get_unaligned_be32_def sg_get_unaligned_be16_def be_value_def
        unat_word_cat_8_8 unat_word_cat_16_16)
  have le: "unat (push_bit 16 (ucast (sg_get_unaligned_le32 (drop 2 timestamp)) :: u64)
                + ucast (sg_get_unaligned_le16 timestamp))
            = le_value [c, d, e, f] * 2 ^ 16 + le_value [a, b]"
    unfolding unat_shift16_add
    by (simp add: ts sg_get_unaligned_le32_def sg_get_unaligned_le16_def
        unat_word_cat_8_8 unat_word_cat_16_16)
  have general: "(let protocol = drop_bit 4 timestamp_info AND 3;
              r = ocp_telemetry_timestamp_to_uint64 timestamp timestamp_info
          in if protocol = 1 then
               unat (fst r) = be_value (take 4 timestamp) * 2 ^ 16 + be_value (drop 4 timestamp)
               \<and> snd r = []
             else if protocol = 2 then
               unat (fst r) = le_value (drop 2 timestamp) * 2 ^ 16 + le_value (take 2 timestamp)
               \<and> snd r = []
             else fst r = 0 \<and> snd r = [Unknown_timestamp_protocol (ucast protocol)])"
    using be le
    by (simp add: ocp_telemetry_timestamp_to_uint64_def timestamp_protocol_field
        protocol_ucast_eq Let_def ts)
  have concrete: "ocp_telemetry_timestamp_to_uint64 [1, 2, 3, 4, 5, 6] 0x0010 = (0x010203040506, [])"
    by (simp add: ocp_telemetry_timestamp_to_uint64_def sg_get_unaligned_be32_def
        sg_get_unaligned_be16_def word_cat_eq)
  from general concrete show ?thesis by blast
qed

theorem timestamp_to_uint64_by_protocol_witness:
  "length [1, 2, 3, 4, 5, 6 :: u8] = 6
   \<and> unat (fst (ocp_telemetry_timestamp_to_uint64 [1, 2, 3, 4, 5, 6] 0x0020)) = 0x060504030201"
  using timestamp_to_uint64_by_protocol [of "[1, 2, 3, 4, 5, 6]" "0x0020"]
  by (simp add: Let_def)

section \<open>GUID rendering\<close>

text \<open>
  \<^verbatim>\<open>ocp_guid_to_str\<close> (ocptelemetryprint.cpp, lines 48-53) prints into a caller's
  buffer of \<open>OCP_GUID_LEN * 2 + 2 = 34\<close> characters with \<^verbatim>\<open>snprintf\<close>. The buffer is
  passed in and returned; \<open>store\<close> overwrites a range of it. The library call
  \<^verbatim>\<open>snprintf(p, 3, "%02X", b)\<close> writes the two upper-case hexadecimal digits of the
  byte and a terminating NUL.
\<close>

definition NUL :: char where
  "NUL = CHR 0x00"

definition store :: "'a list \<Rightarrow> nat \<Rightarrow> 'a list \<Rightarrow> 'a list" where
  "store buf off xs = take off buf @ xs @ drop (off + length xs) buf"

definition hex_digit_upper :: "nat \<Rightarrow> char" where
  "hex_digit_upper n = ''0123456789ABCDEF'' ! n"

definition fmt_02X :: "u8 \<Rightarrow> string" where
  "fmt_02X b = [hex_digit_upper (unat b div 16), hex_digit_upper (unat b mod 16)]"

definition c_string_of :: "string \<Rightarrow> string" where
  "c_string_of buf = takeWhile (\<lambda>c. c \<noteq> NUL) buf"

function ocp_guid_loop :: "nat \<Rightarrow> u8 list \<Rightarrow> string \<Rightarrow> string" where
  "ocp_guid_loop i guid str =
     (if i < 16 then
        ocp_guid_loop (i + 1) guid (store str (i * 2) (fmt_02X (guid ! (16 - i - 1)) @ [NUL]))
      else str)"
  by pat_completeness auto
termination
  by (relation "measure (\<lambda>(i, guid, str). 16 - i)") auto

declare ocp_guid_loop.simps [simp del]

definition ocp_guid_to_str :: "string \<Rightarrow> u8 list \<Rightarrow> string" where
  "ocp_guid_to_str str guid = store (ocp_guid_loop 0 guid str) (16 * 2) (''h'' @ [NUL])"

text \<open>Reading a rendered GUID back: the value of a hexadecimal digit, pairs of digits as
  bytes, and the bytes in reversed order after the suffix is dropped.\<close>

definition hex_digit_value :: "char \<Rightarrow> nat" where
  "hex_digit_value c = length (takeWhile (\<lambda>d. d \<noteq> c) ''0123456789ABCDEF'')"

fun hex_pairs :: "string \<Rightarrow> u8 list" where
  "hex_pairs (a # b # cs) = word_of_nat (hex_digit_value a * 16 + hex_digit_value b) # hex_pairs cs"
| "hex_pairs _ = []"

definition guid_of_str :: "string \<Rightarrow> u8 list" where
  "guid_of_str s = rev (hex_pairs (butlast s))"

lemma hex_digit_value_upper: "n < 16 \<Longrightarrow> hex_digit_value (hex_digit_upper n) = n"
proof -
  assume "n < 16"
  moreover have "\<forall>k \<in> set [0..<16]. hex_digit_value (hex_digit_upper k) = k"
    by code_simp
  ultimately show ?thesis by simp
qed

lemma hex_digit_upper_not_NUL: "n < 16 \<Longrightarrow> hex_digit_upper n \<noteq> NUL"
proof -
  assume "n < 16"
  moreover have "\<forall>k \<in> set [0..<16]. hex_digit_upper k \<noteq> NUL"
    by code_simp
  ultimately show ?thesis by simp
qed

lemma hex_pairs_fmt: "hex_pairs (fmt_02X b @ cs) = b # hex_pairs cs"
proof -
  have "unat b div 16 < 16" using unat_u8_lt [of b] by simp
  moreover have "unat b mod 16 < 16" by simp
  ultimately show ?thesis
    by (simp add: fmt_02X_def hex_digit_value_upper)
qed

lemma hex_pairs_concat: "hex_pairs (concat (map fmt_02X bs)) = bs"
  by (induction bs) (simp_all add: hex_pairs_fmt)


lemma length_store: "off + length xs \<le> length buf \<Longrightarrow> length (store buf off xs) = length buf"
  by (simp add: store_def)

lemma fmt_02X_length: "length (fmt_02X b) = 2"
  by (simp add: fmt_02X_def)

lemma fmt_02X_no_NUL: "NUL \<notin> set (fmt_02X b)"
proof -
  have "unat b div 16 < 16" using unat_u8_lt [of b] by simp
  moreover have "unat b mod 16 < 16" by simp
  ultimately show ?thesis
    using hex_digit_upper_not_NUL [of "unat b div 16"] hex_digit_upper_not_NUL [of "unat b mod 16"]
    by (simp add: fmt_02X_def)
qed

text \<open>After the iterations from \<open>i\<close> on, the first \<open>2 * 16\<close> characters are those written
  before, followed by the digits of bytes \<open>15 - i\<close> down to \<open>0\<close>.\<close>

lemma ocp_guid_loop_inv:
  "i \<le> 16 \<Longrightarrow> length str = 34 \<Longrightarrow>
     length (ocp_guid_loop i guid str) = 34 \<and>
     take 32 (ocp_guid_loop i guid str) =
       take (2 * i) str @ concat (map (\<lambda>k. fmt_02X (guid ! (15 - k))) [i..<16])"
proof (induction i guid str rule: ocp_guid_loop.induct)
  case (1 i guid str)
  show ?case
  proof (cases "i < 16")
    case False
    with "1.prems" have "i = 16" by simp
    moreover have "ocp_guid_loop i guid str = str"
      using False by (subst ocp_guid_loop.simps) simp
    ultimately show ?thesis using "1.prems" by simp
  next
    case True
    let ?w = "fmt_02X (guid ! (16 - i - 1)) @ [NUL]"
    let ?str' = "store str (i * 2) ?w"
    have len: "length ?str' = 34"
      using True "1.prems" by (simp add: length_store fmt_02X_length)
    have IH: "length (ocp_guid_loop (i + 1) guid ?str') = 34 \<and>
       take 32 (ocp_guid_loop (i + 1) guid ?str') =
         take (2 * (i + 1)) ?str' @ concat (map (\<lambda>k. fmt_02X (guid ! (15 - k))) [i + 1..<16])"
      using "1.IH" [OF True] True len by simp
    have pre: "take (2 * (i + 1)) ?str' = take (2 * i) str @ fmt_02X (guid ! (15 - i))"
      using True "1.prems" by (simp add: store_def fmt_02X_length mult.commute)
    have unf: "ocp_guid_loop i guid str = ocp_guid_loop (i + 1) guid ?str'"
      using True by (subst ocp_guid_loop.simps) simp
    have up: "[i..<16] = i # [i + 1..<16]"
      using True by (simp add: upt_conv_Cons)
    show ?thesis
      unfolding unf using IH pre by (simp add: up)
  qed
qed

lemma map_guid_rev:
  "length guid = 16 \<Longrightarrow> map (\<lambda>k. fmt_02X (guid ! (15 - k))) [0..<16] = map fmt_02X (rev guid)"
  by (rule nth_equalityI) (simp_all add: rev_nth)

lemma takeWhile_no_NUL: "NUL \<notin> set xs \<Longrightarrow> takeWhile (\<lambda>c. c \<noteq> NUL) (xs @ NUL # ys) = xs"
  by (induction xs) auto

lemma ocp_guid_to_str_eq:
  assumes "length guid = 16" and "length str = 34"
  shows "c_string_of (ocp_guid_to_str str guid) = concat (map fmt_02X (rev guid)) @ ''h''"
proof -
  let ?b = "ocp_guid_loop 0 guid str"
  have inv: "length ?b = 34" "take 32 ?b = concat (map fmt_02X (rev guid))"
    using ocp_guid_loop_inv [of 0 str guid] assms map_guid_rev [OF assms(1)] by simp_all
  have "ocp_guid_to_str str guid = concat (map fmt_02X (rev guid)) @ ''h'' @ [NUL]"
    using inv by (simp add: ocp_guid_to_str_def store_def)
  moreover have "NUL \<notin> set (concat (map fmt_02X (rev guid)) @ ''h'')"
    using fmt_02X_no_NUL by (auto simp: NUL_def)
  ultimately show ?thesis
    using takeWhile_no_NUL [of "concat (map fmt_02X (rev guid)) @ ''h''" "[]"]
    by (simp add: c_string_of_def)
qed

lemma length_concat_fmt: "length (concat (map fmt_02X bs)) = 2 * length bs"
  by (induction bs) (simp_all add: fmt_02X_length)

text \<open>
  Claim C9. For every 16-byte GUID the rendered string is the 16 bytes as two hexadecimal
  digits each, byte 15 first and byte 0 last, followed by \<open>h\<close>: 33 characters. Reading
  the digit pairs back in reversed order recovers the 16 bytes. The caller's buffer has
  34 characters, whatever their content before the call.
\<close>

theorem guid_rendering_reversed_and_reversible:
  assumes "length guid = 16" and "length str = 34"
  shows "c_string_of (ocp_guid_to_str str guid) = concat (map fmt_02X (rev guid)) @ ''h''
       \<and> length (c_string_of (ocp_guid_to_str str guid)) = 33
       \<and> guid_of_str (c_string_of (ocp_guid_to_str str guid)) = guid"
  using assms
  by (simp add: ocp_guid_to_str_eq length_concat_fmt guid_of_str_def hex_pairs_concat
      butlast_append)

theorem guid_rendering_reversed_and_reversible_witness:
  "length [0xE3, 0xF9, 0xF6, 0x79, 0x1C, 0xD1, 0x16, 0xB6, 0x2E, 0x42, 0x33, 0x34, 0xC0,
           0xF2, 0xDA, 0xF5 :: u8] = 16
   \<and> length (replicate 34 (CHR ''x'')) = 34
   \<and> c_string_of (ocp_guid_to_str (replicate 34 (CHR ''x''))
        [0xE3, 0xF9, 0xF6, 0x79, 0x1C, 0xD1, 0x16, 0xB6, 0x2E, 0x42, 0x33, 0x34, 0xC0,
         0xF2, 0xDA, 0xF5])
     = ''F5DAF2C03433422EB616D11C79F6F9E3h''"
  using guid_rendering_reversed_and_reversible [of
      "[0xE3, 0xF9, 0xF6, 0x79, 0x1C, 0xD1, 0x16, 0xB6, 0x2E, 0x42, 0x33, 0x34, 0xC0,
        0xF2, 0xDA, 0xF5]" "replicate 34 (CHR ''x'')"]
  by (simp add: fmt_02X_def hex_digit_upper_def)

section \<open>Space-padded ASCII fields\<close>

text \<open>
  A \<^verbatim>\<open>size_t\<close> counter is a natural number below \<open>2^64\<close>; subtraction and addition
  wrap around, as unsigned arithmetic does in C.
\<close>

definition size_t_sub :: "nat \<Rightarrow> nat \<Rightarrow> nat" where
  "size_t_sub a b = (a + 2 ^ 64 - b mod 2 ^ 64) mod 2 ^ 64"

definition size_t_add :: "nat \<Rightarrow> nat \<Rightarrow> nat" where
  "size_t_add a b = (a + b) mod 2 ^ 64"

text \<open>
  \<^verbatim>\<open>ocp_ascii_to_c_str\<close> (ocptelemetryprint.cpp, lines 55-72). \<open>mem\<close> is the buffer
  that \<^verbatim>\<open>data\<close> points into and \<open>data\<close> the offset of the pointer in it; the index \<open>i\<close>
  is a \<^verbatim>\<open>size_t\<close>, so \<^verbatim>\<open>size - 1\<close> and \<^verbatim>\<open>--i\<close> wrap around at 0. \<^verbatim>\<open>val[i]\<close> is the
  byte at the address \<^verbatim>\<open>val + i\<close>, computed in 64 bits: with a wrapped index it is a byte
  in front of \<^verbatim>\<open>data\<close>, which is read when it lies in the buffer. \<open>ascii_scan\<close> is the
  \<^verbatim>\<open>do ... while (i > 0)\<close> loop and returns the index it ends with, or \<open>None\<close> when
  \<^verbatim>\<open>val[i]\<close> is read outside the buffer. The result of the function is the bytes copied
  to \<^verbatim>\<open>c_str\<close> in front of the terminating NUL.
\<close>

function ascii_scan :: "u8 list \<Rightarrow> nat \<Rightarrow> nat \<Rightarrow> nat option" where
  "ascii_scan mem data i =
     (if \<not> size_t_add data i < length mem then None
      else if mem ! size_t_add data i \<noteq> 0x20 then Some (size_t_add i 1)
      else if size_t_sub i 1 > 0 then ascii_scan mem data (size_t_sub i 1)
      else Some (size_t_sub i 1))"
  by pat_completeness auto
termination
proof (relation "measure (\<lambda>(mem, data, i). if i = 0 then 2 ^ 64 else i)")
  show "wf (measure (\<lambda>(mem :: u8 list, data :: nat, i :: nat). if i = 0 then 2 ^ 64 else i))"
    by simp
next
  fix mem :: "u8 list" and data i :: nat
  assume pos: "0 < size_t_sub i 1"
  have lt: "size_t_sub i 1 < 2 ^ 64"
    by (simp add: size_t_sub_def)
  have "i \<noteq> 0 \<Longrightarrow> size_t_sub i 1 < i"
  proof -
    assume "i \<noteq> 0"
    show ?thesis
    proof (cases "i < 2 ^ 64")
      case True
      then have "size_t_sub i 1 = i - 1"
        using \<open>i \<noteq> 0\<close> by (simp add: size_t_sub_def mod_if)
      then show ?thesis using \<open>i \<noteq> 0\<close> by simp
    next
      case False
      then show ?thesis using lt by simp
    qed
  qed
  then show "((mem, data, size_t_sub i 1), (mem, data, i))
               \<in> measure (\<lambda>(mem, data, i). if i = 0 then 2 ^ 64 else i)"
    using pos lt by auto
qed

declare ascii_scan.simps [simp del]

definition ocp_ascii_to_c_str :: "u8 list \<Rightarrow> nat \<Rightarrow> nat \<Rightarrow> nat \<Rightarrow> u8 list option" where
  "ocp_ascii_to_c_str mem data sz len =
     (case ascii_scan mem data (size_t_sub sz 1) of
        None \<Rightarrow> None
      | Some i \<Rightarrow>
          if min i (size_t_sub len 1) > 0 then rd mem data (min i (size_t_sub len 1))
          else Some [])"

text \<open>What the claim describes: the buffer without its trailing space bytes.\<close>

definition trim_trailing_spaces :: "u8 list \<Rightarrow> u8 list" where
  "trim_trailing_spaces bs = rev (dropWhile (\<lambda>b. b = 0x20) (rev bs))"

text \<open>
  Claim C8. The claim: for every non-empty buffer the emitted string is the buffer
  without its trailing space bytes, the byte at index 0 included. The loop leaves
  \<^verbatim>\<open>while (i > 0)\<close> before it has looked at \<^verbatim>\<open>val[0]\<close>: for the two bytes
  \<open>'A' ' '\<close> the function emits the empty string where the trimmed buffer is \<open>A\<close>, and
  for the single byte \<open>' '\<close> the index wraps around and \<^verbatim>\<open>val[SIZE_MAX]\<close> is read,
  which is outside a buffer that holds this byte alone.
\<close>

theorem ascii_to_c_str_drops_first_byte:
  "ocp_ascii_to_c_str [0x41, 0x20] 0 2 3 = Some []
   \<and> trim_trailing_spaces [0x41, 0x20] = [0x41]
   \<and> ocp_ascii_to_c_str [0x20] 0 1 2 = None"
  by (simp add: ocp_ascii_to_c_str_def ascii_scan.simps trim_trailing_spaces_def
      size_t_sub_def size_t_add_def)

section \<open>Telemetry data header and its validation\<close>

text \<open>
  \<^verbatim>\<open>struct ocp_telemetry_data_header\<close> (smartmon/ocptelemetry.h): the fields of the packed
  512-byte structure, without its reserved byte ranges.
\<close>

record ocp_telemetry_data_header =
  major_version :: u16
  minor_version :: u16
  timestamp :: "u8 list"
  timestamp_info :: u16
  guid :: "u8 list"
  device_string_data_size :: u16
  firmware_version :: "u8 list"
  statistic1_start_dword :: u64
  statistic1_size_dword :: u64
  statistic2_start_dword :: u64
  statistic2_size_dword :: u64
  event1_FIFO_start_dword :: u64
  event1_FIFO_size_dword :: u64
  event2_FIFO_start_dword :: u64
  event2_FIFO_size_dword :: u64

text \<open>\<^verbatim>\<open>sizeof(struct ocp_telemetry_data_header)\<close>, asserted by the header file.\<close>

definition sizeof_ocp_telemetry_data_header :: nat where
  "sizeof_ocp_telemetry_data_header = 512"

text \<open>
  The conversion \<^verbatim>\<open>(double)n\<close> of an unsigned 64-bit integer, as a natural number: a
  double has a significand of 53 bits, and the conversion rounds to the nearest
  representable value, ties to even. \<open>bit_length n\<close> is the number of binary digits of
  \<open>n\<close>. \<^verbatim>\<open>ceil\<close> of the result and the conversion back to \<^verbatim>\<open>size_t\<close> leave an
  integral value below \<open>2^64\<close> as it is.
\<close>

fun bit_length :: "nat \<Rightarrow> nat" where
  "bit_length n = (if n = 0 then 0 else Suc (bit_length (n div 2)))"

declare bit_length.simps [simp del]

definition double_of_size_t :: "nat \<Rightarrow> nat" where
  "double_of_size_t n =
     (if n < 2 ^ 53 then n
      else
        (let e = bit_length n - 53;
             q = n div 2 ^ e;
             r = n mod 2 ^ e;
             half = 2 ^ (e - 1)
         in (if half < r \<or> (r = half \<and> odd q) then q + 1 else q) * 2 ^ e))"

text \<open>
  The value of \<^verbatim>\<open>max_dword\<close> when the last test of
  \<^verbatim>\<open>validate_ocp_telemetry_data_header\<close> (lib/ocptelemetry.cpp, lines 46-72) is reached.
  The sums are sums of \<^verbatim>\<open>uint64_t\<close> and wrap around.
\<close>

definition header_max_dword :: "ocp_telemetry_data_header \<Rightarrow> u64" where
  "header_max_dword header =
     (let max_dword = (word_of_nat sizeof_ocp_telemetry_data_header :: u64);
          max_dword =
            (if statistic2_size_dword header > 0 \<and>
                statistic2_start_dword header + statistic2_size_dword header > max_dword
             then statistic2_start_dword header + statistic2_size_dword header
             else if statistic1_size_dword header > 0 \<and>
                statistic1_start_dword header + statistic1_size_dword header > max_dword
             then statistic1_start_dword header + statistic1_size_dword header
             else max_dword);
          max_dword =
            (if event2_FIFO_size_dword header > 0 \<and>
                event2_FIFO_start_dword header + event2_FIFO_size_dword header > max_dword
             then event2_FIFO_start_dword header + event2_FIFO_size_dword header
             else if event1_FIFO_size_dword header > 0 \<and>
                event1_FIFO_start_dword header + event1_FIFO_size_dword header > max_dword
             then event1_FIFO_start_dword header + event1_FIFO_size_dword header
             else max_dword)
      in max_dword)"

definition validate_ocp_telemetry_data_header :: "ocp_telemetry_data_header \<Rightarrow> u32 \<Rightarrow> bool" where
  "validate_ocp_telemetry_data_header header nsectors =
     (if unat nsectors < size_t_add (double_of_size_t (unat (header_max_dword header div 128))) 1
      then False else True)"

lemma two_power_bit_length: "0 < n \<Longrightarrow> 2 ^ (bit_length n - 1) \<le> n"
proof (induction n rule: bit_length.induct)
  case (1 n)
  show ?case
  proof (cases "n div 2 = 0")
    case True
    then have "bit_length n = 1"
      using "1.prems" by (simp add: bit_length.simps [of n] bit_length.simps [of 0])
    then show ?thesis using "1.prems" by simp
  next
    case False
    then have "2 ^ (bit_length (n div 2) - 1) \<le> n div 2"
      using "1.IH" "1.prems" by simp
    moreover have "bit_length (n div 2) > 0"
      using False by (simp add: bit_length.simps [of "n div 2"])
    moreover have "bit_length n = Suc (bit_length (n div 2))"
      using "1.prems" by (simp add: bit_length.simps [of n])
    ultimately have "2 ^ (bit_length n - 1) \<le> 2 * (n div 2)"
      by (cases "bit_length (n div 2)") simp_all
    then show ?thesis by linarith
  qed
qed

lemma bit_length_less: "n < 2 ^ bit_length n"
proof (induction n rule: bit_length.induct)
  case (1 n)
  show ?case
  proof (cases "n = 0")
    case True
    then show ?thesis by simp
  next
    case False
    then have "n div 2 < 2 ^ bit_length (n div 2)"
      using "1.IH" by simp
    moreover have "bit_length n = Suc (bit_length (n div 2))"
      using False by (simp add: bit_length.simps [of n])
    ultimately show ?thesis by simp
  qed
qed

lemma double_of_size_t_exact: "n < 2 ^ 53 \<Longrightarrow> double_of_size_t n = n"
  by (simp add: double_of_size_t_def)

lemma double_of_size_t_large:
  assumes "2 ^ 53 \<le> n"
  shows "2 ^ 53 \<le> double_of_size_t n"
proof -
  define e where "e = bit_length n - 53"
  have "n < 2 ^ bit_length n" by (rule bit_length_less)
  with assms have "(2::nat) ^ 53 < 2 ^ bit_length n" by linarith
  then have bl: "53 < bit_length n"
    by (rule power_less_imp_less_exp [rotated]) simp
  then have e: "bit_length n - 1 = 52 + e" "0 < e"
    by (simp_all add: e_def)
  have "2 ^ (bit_length n - 1) \<le> n"
    using assms by (intro two_power_bit_length) simp
  then have "2 ^ (52 + e) \<le> n"
    by (simp only: e(1))
  then have "2 ^ 52 * 2 ^ e \<le> n"
    by (simp only: power_add)
  then have q: "2 ^ 52 \<le> n div 2 ^ e"
    by (simp add: less_eq_div_iff_mult_less_eq)
  have "(2::nat) ^ 1 \<le> 2 ^ e"
    using e(2) by (intro power_increasing) simp_all
  then have "(2::nat) ^ 52 * 2 ^ 1 \<le> (n div 2 ^ e) * 2 ^ e"
    using q by (intro mult_mono) simp_all
  then have lo: "2 ^ 53 \<le> (n div 2 ^ e) * 2 ^ e"
    by simp
  have hi: "2 ^ 53 \<le> (n div 2 ^ e + 1) * 2 ^ e"
    by (rule order_trans [OF lo]) simp
  define c where "c \<longleftrightarrow> 2 ^ (e - 1) < n mod 2 ^ e \<or> (n mod 2 ^ e = 2 ^ (e - 1) \<and> odd (n div 2 ^ e))"
  have "double_of_size_t n = (if c then n div 2 ^ e + 1 else n div 2 ^ e) * 2 ^ e"
    using assms by (simp add: double_of_size_t_def Let_def e_def c_def)
  then show ?thesis
    using lo hi by (cases c) (simp_all only: if_True if_False)
qed


lemma two_power_le_bit_length: "0 < n \<Longrightarrow> k < bit_length n \<Longrightarrow> 2 ^ k \<le> n"
proof -
  assume "0 < n" and "k < bit_length n"
  then have "(2::nat) ^ k \<le> 2 ^ (bit_length n - 1)"
    by (intro power_increasing) simp_all
  also have "\<dots> \<le> n"
    using \<open>0 < n\<close> by (rule two_power_bit_length)
  finally show ?thesis .
qed

lemma double_of_size_t_le: "double_of_size_t n \<le> 2 * n"
proof (cases "n < 2 ^ 53")
  case True
  then show ?thesis by (simp add: double_of_size_t_def)
next
  case False
  define e where "e = bit_length n - 53"
  have "0 < n" using False by (cases n) simp_all
  have "n < 2 ^ bit_length n" by (rule bit_length_less)
  with False have "(2::nat) ^ 53 < 2 ^ bit_length n" by linarith
  then have "53 < bit_length n"
    by (rule power_less_imp_less_exp [rotated]) simp
  then have "e < bit_length n" by (simp add: e_def)
  then have pe: "2 ^ e \<le> n"
    using \<open>0 < n\<close> by (intro two_power_le_bit_length)
  have dm: "(n div 2 ^ e) * 2 ^ e \<le> n" by simp
  have "(n div 2 ^ e + 1) * 2 ^ e = (n div 2 ^ e) * 2 ^ e + 2 ^ e"
    by (simp add: add_mult_distrib)
  then have hi: "(n div 2 ^ e + 1) * 2 ^ e \<le> 2 * n"
    using pe dm by linarith
  have lo: "(n div 2 ^ e) * 2 ^ e \<le> 2 * n"
    using dm by linarith
  define c where "c \<longleftrightarrow> 2 ^ (e - 1) < n mod 2 ^ e \<or> (n mod 2 ^ e = 2 ^ (e - 1) \<and> odd (n div 2 ^ e))"
  have "double_of_size_t n = (if c then n div 2 ^ e + 1 else n div 2 ^ e) * 2 ^ e"
    using False by (simp add: double_of_size_t_def Let_def e_def c_def)
  then show ?thesis
    using lo hi by (cases c) (simp_all only: if_True if_False)
qed

text \<open>The conversion to \<^verbatim>\<open>double\<close> never changes the outcome of the test: below \<open>2^53\<close>
  it is exact, and from \<open>2^53\<close> on the bound exceeds every 32-bit sector count.\<close>

lemma validate_iff_quotient:
  "validate_ocp_telemetry_data_header header nsectors
     \<longleftrightarrow> unat (header_max_dword header) div 128 + 1 \<le> unat nsectors"
proof -
  define q where "q = unat (header_max_dword header) div 128"
  have uq: "unat (header_max_dword header div 128) = q"
    by (simp add: q_def unat_div)
  have "unat (header_max_dword header) < 2 ^ 64"
    using unsigned_less [of "header_max_dword header", where 'a = nat] by simp
  then have q57: "q < 2 ^ 57" by (simp add: q_def)
  have n32: "unat nsectors < 2 ^ 32"
    using unsigned_less [of nsectors, where 'a = nat] by simp
  show ?thesis
  proof (cases "q < 2 ^ 53")
    case True
    then have "size_t_add (double_of_size_t q) 1 = q + 1"
      by (simp add: double_of_size_t_exact size_t_add_def)
    then show ?thesis
      by (auto simp: validate_ocp_telemetry_data_header_def uq q_def [symmetric])
  next
    case False
    then have big: "2 ^ 53 \<le> double_of_size_t q"
      by (intro double_of_size_t_large) simp
    have "double_of_size_t q \<le> 2 * q" by (rule double_of_size_t_le)
    with q57 have "double_of_size_t q + 1 < 2 ^ 64" by simp
    then have "size_t_add (double_of_size_t q) 1 = double_of_size_t q + 1"
      by (simp add: size_t_add_def)
    with big n32 have "unat nsectors < size_t_add (double_of_size_t q) 1" by simp
    moreover have "\<not> q + 1 \<le> unat nsectors"
      using False n32 by simp
    ultimately show ?thesis
      by (simp add: validate_ocp_telemetry_data_header_def uq q_def [symmetric])
  qed
qed


lemma extent_within_512:
  fixes a b :: u64
  assumes "unat a + unat b \<le> 512"
  shows "\<not> 512 < a + b"
proof -
  have "unat (a + b) \<le> unat a + unat b"
    by (simp add: unat_word_ariths)
  with assms have "unat (a + b) \<le> 512" by linarith
  then show ?thesis
    by (simp add: word_less_nat_alt)
qed

definition zero_header :: ocp_telemetry_data_header where
  "zero_header =
     \<lparr>major_version = 0, minor_version = 0, timestamp = replicate 6 0, timestamp_info = 0,
      guid = replicate 16 0, device_string_data_size = 0, firmware_version = replicate 8 0,
      statistic1_start_dword = 0, statistic1_size_dword = 0,
      statistic2_start_dword = 0, statistic2_size_dword = 0,
      event1_FIFO_start_dword = 0, event1_FIFO_size_dword = 0,
      event2_FIFO_start_dword = 0, event2_FIFO_size_dword = 0\<rparr>"

text \<open>
  Claim C10. \<^verbatim>\<open>max_dword\<close> starts as the size of the header in bytes, 512, and is
  compared with extents in dwords. So for every header whose four region extents
  (\<open>start + size\<close>, in dwords) are each at most 512, the header with four empty regions
  among them, validation succeeds exactly when the sector budget is at least 5 pages.
\<close>

theorem validate_small_extents_needs_five_pages:
  assumes "unat (statistic1_start_dword header) + unat (statistic1_size_dword header) \<le> 512"
    and "unat (statistic2_start_dword header) + unat (statistic2_size_dword header) \<le> 512"
    and "unat (event1_FIFO_start_dword header) + unat (event1_FIFO_size_dword header) \<le> 512"
    and "unat (event2_FIFO_start_dword header) + unat (event2_FIFO_size_dword header) \<le> 512"
  shows "header_max_dword header = word_of_nat sizeof_ocp_telemetry_data_header
       \<and> unat (header_max_dword header) = 512
       \<and> (validate_ocp_telemetry_data_header header nsectors \<longleftrightarrow> 5 \<le> unat nsectors)"
proof -
  have m: "header_max_dword header = 512"
    using assms
    by (simp add: header_max_dword_def sizeof_ocp_telemetry_data_header_def Let_def
        extent_within_512)
  then show ?thesis
    by (simp add: validate_iff_quotient sizeof_ocp_telemetry_data_header_def)
qed

theorem validate_small_extents_needs_five_pages_witness:
  "unat (statistic1_start_dword zero_header) + unat (statistic1_size_dword zero_header) \<le> 512
   \<and> unat (statistic2_start_dword zero_header) + unat (statistic2_size_dword zero_header) \<le> 512
   \<and> unat (event1_FIFO_start_dword zero_header) + unat (event1_FIFO_size_dword zero_header) \<le> 512
   \<and> unat (event2_FIFO_start_dword zero_header) + unat (event2_FIFO_size_dword zero_header) \<le> 512
   \<and> validate_ocp_telemetry_data_header zero_header 5
   \<and> \<not> validate_ocp_telemetry_data_header zero_header 4"
  using validate_small_extents_needs_five_pages [of zero_header 5]
    validate_small_extents_needs_five_pages [of zero_header 4]
  by (simp add: zero_header_def)

text \<open>
  The rule of validation as the specification words it: the maximum of the header size,
  the extent of S2, the extent of S1 only when S2 is empty, the extent of E2 and the
  extent of E1 only when E2 is empty; then a budget of at least
  \<open>ceil(max_dword / 128) + 1\<close> pages.
\<close>

definition claimed_max_dword :: "ocp_telemetry_data_header \<Rightarrow> nat" where
  "claimed_max_dword header =
     Max {512,
          unat (statistic2_start_dword header) + unat (statistic2_size_dword header),
          (if statistic2_size_dword header = 0
           then unat (statistic1_start_dword header) + unat (statistic1_size_dword header)
           else 0),
          unat (event2_FIFO_start_dword header) + unat (event2_FIFO_size_dword header),
          (if event2_FIFO_size_dword header = 0
           then unat (event1_FIFO_start_dword header) + unat (event1_FIFO_size_dword header)
           else 0)}"

definition claimed_validation :: "ocp_telemetry_data_header \<Rightarrow> nat \<Rightarrow> bool" where
  "claimed_validation header budget \<longleftrightarrow> (claimed_max_dword header + 127) div 128 + 1 \<le> budget"

text \<open>
  The rule as the code has it. An extent is the 64-bit sum. S1 is looked at when S2 is
  empty or the extent of S2 does not exceed the header size; E1 is looked at when E2 is
  empty or the extent of E2 does not exceed the maximum reached after the statistics
  areas.
\<close>

definition region_extent :: "u64 \<Rightarrow> u64 \<Rightarrow> nat" where
  "region_extent start_dword size_dword = unat (start_dword + size_dword)"

definition statistics_max_dword :: "ocp_telemetry_data_header \<Rightarrow> nat" where
  "statistics_max_dword header =
     Max {512,
          (if statistic2_size_dword header \<noteq> 0
           then region_extent (statistic2_start_dword header) (statistic2_size_dword header)
           else 0),
          (if statistic1_size_dword header \<noteq> 0 \<and>
              (statistic2_size_dword header = 0 \<or>
               region_extent (statistic2_start_dword header) (statistic2_size_dword header) \<le> 512)
           then region_extent (statistic1_start_dword header) (statistic1_size_dword header)
           else 0)}"

definition amended_max_dword :: "ocp_telemetry_data_header \<Rightarrow> nat" where
  "amended_max_dword header =
     Max {statistics_max_dword header,
          (if event2_FIFO_size_dword header \<noteq> 0
           then region_extent (event2_FIFO_start_dword header) (event2_FIFO_size_dword header)
           else 0),
          (if event1_FIFO_size_dword header \<noteq> 0 \<and>
              (event2_FIFO_size_dword header = 0 \<or>
               region_extent (event2_FIFO_start_dword header) (event2_FIFO_size_dword header)
                 \<le> statistics_max_dword header)
           then region_extent (event1_FIFO_start_dword header) (event1_FIFO_size_dword header)
           else 0)}"

definition header_s1_behind_s2 :: ocp_telemetry_data_header where
  "header_s1_behind_s2 =
     zero_header\<lparr>statistic1_start_dword := 0, statistic1_size_dword := 1024,
                 statistic2_start_dword := 0, statistic2_size_dword := 10\<rparr>"

definition header_s2_513 :: ocp_telemetry_data_header where
  "header_s2_513 = zero_header\<lparr>statistic2_start_dword := 0, statistic2_size_dword := 513\<rparr>"

lemma max_dword_stage:
  fixes m a b s2 s1 :: u64
  shows "unat (if s2 > 0 \<and> a > m then a else if s1 > 0 \<and> b > m then b else m)
       = Max {unat m, (if s2 \<noteq> 0 then unat a else 0),
              (if s1 \<noteq> 0 \<and> (s2 = 0 \<or> unat a \<le> unat m) then unat b else 0)}"
proof -
  have gt: "(0 :: u64) < x \<longleftrightarrow> x \<noteq> 0" for x
    by (simp add: word_greater_zero_iff)
  show ?thesis
    unfolding gt by (simp add: word_less_nat_alt max_def)
qed

lemma header_max_dword_amended: "unat (header_max_dword header) = amended_max_dword header"
proof -
  define m1 :: u64 where "m1 =
     (if statistic2_size_dword header > 0 \<and>
         statistic2_start_dword header + statistic2_size_dword header > 512
      then statistic2_start_dword header + statistic2_size_dword header
      else if statistic1_size_dword header > 0 \<and>
         statistic1_start_dword header + statistic1_size_dword header > 512
      then statistic1_start_dword header + statistic1_size_dword header
      else 512)"
  have s: "unat m1 = statistics_max_dword header"
    unfolding m1_def statistics_max_dword_def region_extent_def max_dword_stage
    by simp
  have eq: "header_max_dword header =
     (if event2_FIFO_size_dword header > 0 \<and>
         event2_FIFO_start_dword header + event2_FIFO_size_dword header > m1
      then event2_FIFO_start_dword header + event2_FIFO_size_dword header
      else if event1_FIFO_size_dword header > 0 \<and>
         event1_FIFO_start_dword header + event1_FIFO_size_dword header > m1
      then event1_FIFO_start_dword header + event1_FIFO_size_dword header
      else m1)"
    by (simp only: header_max_dword_def Let_def m1_def sizeof_ocp_telemetry_data_header_def
        of_nat_numeral)
  show ?thesis
    by (simp only: eq amended_max_dword_def region_extent_def max_dword_stage s)
qed


lemma sub_mod_no_wrap:
  fixes a b M :: nat
  assumes "b \<le> a" and "a < M"
  shows "(a + M - b mod M) mod M = a - b"
proof -
  have 1: "b mod M = b" using assms by simp
  have 2: "a + M - b = (a - b) + M"
    using assms by linarith
  have 3: "a - b < M"
    using assms by linarith
  have "(a + M - b mod M) mod M = (a + M - b) mod M"
    by (simp only: 1)
  also have "\<dots> = ((a - b) + M) mod M"
    by (simp only: 2)
  also have "\<dots> = (a - b) mod M"
    by (rule mod_add_self2)
  also have "\<dots> = a - b"
    using 3 by (rule mod_less)
  finally show ?thesis .
qed

lemma size_t_sub_no_wrap: "b \<le> a \<Longrightarrow> a < 2 ^ 64 \<Longrightarrow> size_t_sub a b = a - b"
  unfolding size_t_sub_def by (rule sub_mod_no_wrap)

lemma sub_mod_le_diff:
  fixes a b M :: nat
  assumes "b \<le> a" and "b < M"
  shows "(a + M - b mod M) mod M \<le> a - b"
proof -
  have 1: "b mod M = b" using assms by simp
  have 2: "a + M - b = (a - b) + M"
    using assms by linarith
  have "(a + M - b mod M) mod M = (a + M - b) mod M"
    by (simp only: 1)
  also have "\<dots> = ((a - b) + M) mod M"
    by (simp only: 2)
  also have "\<dots> = (a - b) mod M"
    by (rule mod_add_self2)
  also have "\<dots> \<le> a - b"
    by (rule mod_less_eq_dividend)
  finally show ?thesis .
qed

lemma size_t_sub_le_diff: "b \<le> a \<Longrightarrow> b < 2 ^ 64 \<Longrightarrow> size_t_sub a b \<le> a - b"
  unfolding size_t_sub_def by (rule sub_mod_le_diff)

lemma size_t_sub_less: "size_t_sub a b < 2 ^ 64"
  unfolding size_t_sub_def by (rule mod_less_divisor) simp

section \<open>Reading log 0x24\<close>

text \<open>
  \<^verbatim>\<open>struct ata_device_internal_status\<close> (smartmon/ocptelemetry.h), page 0 of either log.
\<close>

record ata_device_internal_status =
  log_address :: u8
  organization_id :: u32
  area1_last_log_page :: u16
  area2_last_log_page :: u16
  area3_last_log_page :: u16
  saved_data_available :: u8
  saved_data_generation_number :: u8
  reason_id :: "u8 list"

text \<open>
  The source reads a page straight into the packed structure. The two functions give the
  fields their bytes, by the offsets of the declarations.
\<close>

definition ata_device_internal_status_of :: "u8 list \<Rightarrow> ata_device_internal_status" where
  "ata_device_internal_status_of page =
     \<lparr>log_address = page ! 0,
      organization_id = sg_get_unaligned_le32 (drop 4 page),
      area1_last_log_page = sg_get_unaligned_le16 (drop 8 page),
      area2_last_log_page = sg_get_unaligned_le16 (drop 10 page),
      area3_last_log_page = sg_get_unaligned_le16 (drop 12 page),
      saved_data_available = page ! 382,
      saved_data_generation_number = page ! 383,
      reason_id = take 128 (drop 384 page)\<rparr>"

definition ocp_telemetry_data_header_of :: "u8 list \<Rightarrow> ocp_telemetry_data_header" where
  "ocp_telemetry_data_header_of page =
     \<lparr>major_version = sg_get_unaligned_le16 page,
      minor_version = sg_get_unaligned_le16 (drop 2 page),
      timestamp = take 6 (drop 8 page),
      timestamp_info = sg_get_unaligned_le16 (drop 14 page),
      guid = take 16 (drop 16 page),
      device_string_data_size = sg_get_unaligned_le16 (drop 32 page),
      firmware_version = take 8 (drop 34 page),
      statistic1_start_dword = sg_get_unaligned_le64 (drop 110 page),
      statistic1_size_dword = sg_get_unaligned_le64 (drop 118 page),
      statistic2_start_dword = sg_get_unaligned_le64 (drop 126 page),
      statistic2_size_dword = sg_get_unaligned_le64 (drop 134 page),
      event1_FIFO_start_dword = sg_get_unaligned_le64 (drop 142 page),
      event1_FIFO_size_dword = sg_get_unaligned_le64 (drop 150 page),
      event2_FIFO_start_dword = sg_get_unaligned_le64 (drop 158 page),
      event2_FIFO_size_dword = sg_get_unaligned_le64 (drop 166 page)\<rparr>"

text \<open>
  Modelled from the spec: \<^verbatim>\<open>ataReadLogExt\<close> (smartmon/atacmds.h, not among the
  sources), by the page reader contract of spec 6.2: a device gives, for a log address
  and a page index, the 512 bytes of the page or a failure.
\<close>

type_synonym ata_device = "u8 \<Rightarrow> nat \<Rightarrow> u8 list option"

definition ataReadLogExt :: "ata_device \<Rightarrow> u8 \<Rightarrow> nat \<Rightarrow> u8 list option" where
  "ataReadLogExt device logaddr page =
     (case device logaddr page of
        None \<Rightarrow> None
      | Some bytes \<Rightarrow> if length bytes = 512 then Some bytes else None)"

text \<open>
  The source returns \<^verbatim>\<open>false\<close> for every failure. The model labels each
  \<^verbatim>\<open>return false\<close> with the error kind of spec section 7 that it stands for;
  \<open>Out_of_bounds\<close> is a copy that leaves the page or the allocated buffer.
\<close>

datatype read_failure = Read_error | No_data | Truncated | Alloc_failure | Out_of_bounds

text \<open>
  \<^verbatim>\<open>read_ocp_telemetry_data_range_sata\<close> (lib/ocptelemetry.cpp, lines 74-98):
  \<open>range_pages\<close> is its loop and returns the bytes copied to \<^verbatim>\<open>dest\<close>, in order.
  \<open>capacity\<close> is the number of bytes that the allocated buffer still has from
  \<^verbatim>\<open>dest\<close> on. In \<^verbatim>\<open>ceil(start_dword / 128) + 1\<close> the quotient is an integer
  quotient, converted to \<^verbatim>\<open>double\<close>; the sum is a sum of doubles.
\<close>

definition dwords_in_page :: "nat \<Rightarrow> nat \<Rightarrow> nat" where
  "dwords_in_page dwords_to_read page_offset =
     (if dwords_to_read < size_t_sub 128 page_offset then dwords_to_read
      else size_t_sub 128 page_offset)"

function range_pages :: "ata_device \<Rightarrow> nat \<Rightarrow> nat \<Rightarrow> nat \<Rightarrow> nat \<Rightarrow> read_failure + u8 list" where
  "range_pages device page_idx page_offset dwords_to_read capacity =
     (if dwords_to_read > 0 then
        (case ataReadLogExt device 0x24 page_idx of
           None \<Rightarrow> Inl Read_error
         | Some page \<Rightarrow>
            (case rd page (4 * page_offset) (4 * dwords_in_page dwords_to_read page_offset) of
               None \<Rightarrow> Inl Out_of_bounds
             | Some bytes \<Rightarrow>
                if capacity < length bytes then Inl Out_of_bounds
                else
                  (case range_pages device (size_t_add page_idx 1) 0
                          (size_t_sub dwords_to_read (dwords_in_page dwords_to_read page_offset))
                          (capacity - length bytes) of
                     Inl e \<Rightarrow> Inl e
                   | Inr rest \<Rightarrow> Inr (bytes @ rest))))
      else Inr [])"
  by pat_completeness auto
termination
proof (relation "measure (\<lambda>(device, page_idx, page_offset, dwords_to_read, capacity).
                   2 * dwords_to_read + (if page_offset = 0 then 0 else 1))")
  show "wf (measure (\<lambda>(device :: ata_device, page_idx :: nat, page_offset :: nat,
                       dwords_to_read :: nat, capacity :: nat).
                   2 * dwords_to_read + (if page_offset = 0 then 0 else 1)))"
    by simp
next
  fix device :: ata_device and page_idx page_offset dwords_to_read capacity :: nat
    and page bytes :: "u8 list"
  assume pos: "0 < dwords_to_read"
  let ?d = "dwords_in_page dwords_to_read page_offset"
  have le: "?d \<le> dwords_to_read"
    by (simp add: dwords_in_page_def)
  have "?d \<le> size_t_sub 128 page_offset"
    by (simp add: dwords_in_page_def)
  then have "?d < 2 ^ 64"
    using size_t_sub_less [of 128 page_offset] by (rule le_less_trans)
  with le have sub: "size_t_sub dwords_to_read ?d \<le> dwords_to_read - ?d"
    by (rule size_t_sub_le_diff)
  have zero: "page_offset = 0 \<Longrightarrow> 0 < ?d"
    using pos by (simp add: dwords_in_page_def size_t_sub_def)
  show "((device, size_t_add page_idx 1, 0, size_t_sub dwords_to_read ?d, capacity - length bytes),
         (device, page_idx, page_offset, dwords_to_read, capacity))
        \<in> measure (\<lambda>(device, page_idx, page_offset, dwords_to_read, capacity).
                   2 * dwords_to_read + (if page_offset = 0 then 0 else 1))"
    using sub zero le by (cases "page_offset = 0") auto
qed

declare range_pages.simps [simp del]

definition read_ocp_telemetry_data_range_sata ::
    "ata_device \<Rightarrow> u64 \<Rightarrow> u64 \<Rightarrow> nat \<Rightarrow> read_failure + u8 list" where
  "read_ocp_telemetry_data_range_sata device start_dword size_dword capacity =
     (let page_idx = double_of_size_t (double_of_size_t (unat start_dword div 128) + 1) mod 2 ^ 64;
          page_offset = size_t_sub (unat start_dword) ((size_t_sub page_idx 1 * 128) mod 2 ^ 64)
      in range_pages device page_idx page_offset (unat size_dword) capacity)"

text \<open>
  \<^verbatim>\<open>read_ata_ocp_telemetry_statistics\<close> (lib/ocptelemetry.cpp, lines 203-284).
  \<open>malloc_ok n\<close> tells whether \<^verbatim>\<open>malloc(n)\<close> succeeds. \<open>fetch_region\<close> is one of the four
  guarded reads: it appends the bytes of a non-empty region to the buffer filled so far.
\<close>

definition fetch_region ::
    "ata_device \<Rightarrow> nat \<Rightarrow> u64 \<Rightarrow> u64 \<Rightarrow> u8 list \<Rightarrow> read_failure + u8 list" where
  "fetch_region device log_size start_dword size_dword logs =
     (if size_dword > 0 then
        (case read_ocp_telemetry_data_range_sata device start_dword size_dword
                (log_size - length logs) of
           Inl e \<Rightarrow> Inl e
         | Inr bytes \<Rightarrow> Inr (logs @ bytes))
      else Inr logs)"

definition read_regions ::
    "ata_device \<Rightarrow> ocp_telemetry_data_header \<Rightarrow> nat \<Rightarrow> read_failure + u8 list" where
  "read_regions device header log_size =
     (case fetch_region device log_size (statistic1_start_dword header)
             (statistic1_size_dword header) [] of
        Inl e \<Rightarrow> Inl e
      | Inr logs1 \<Rightarrow>
     (case fetch_region device log_size (statistic2_start_dword header)
             (statistic2_size_dword header) logs1 of
        Inl e \<Rightarrow> Inl e
      | Inr logs2 \<Rightarrow>
     (case fetch_region device log_size (event1_FIFO_start_dword header)
             (event1_FIFO_size_dword header) logs2 of
        Inl e \<Rightarrow> Inl e
      | Inr logs3 \<Rightarrow>
        fetch_region device log_size (event2_FIFO_start_dword header)
             (event2_FIFO_size_dword header) logs3)))"

definition read_ata_ocp_telemetry_statistics ::
    "(nat \<Rightarrow> bool) \<Rightarrow> ata_device \<Rightarrow> u32 \<Rightarrow>
       read_failure + (ata_device_internal_status \<times> ocp_telemetry_data_header \<times> u8 list)" where
  "read_ata_ocp_telemetry_statistics malloc_ok device nsectors =
     (case ataReadLogExt device 0x24 0 of
        None \<Rightarrow> Inl Read_error
      | Some page0 \<Rightarrow>
          if area1_last_log_page (ata_device_internal_status_of page0) = 0 then Inl No_data
          else
            (case ataReadLogExt device 0x24 1 of
               None \<Rightarrow> Inl Read_error
             | Some page1 \<Rightarrow>
                 if \<not> validate_ocp_telemetry_data_header (ocp_telemetry_data_header_of page1) nsectors
                 then Inl Truncated
                 else
                   (let ocp_data_header = ocp_telemetry_data_header_of page1;
                        log_size = unat (push_bit 2 (statistic1_size_dword ocp_data_header +
                                     statistic2_size_dword ocp_data_header +
                                     event1_FIFO_size_dword ocp_data_header +
                                     event2_FIFO_size_dword ocp_data_header))
                    in if \<not> malloc_ok log_size then Inl Alloc_failure
                       else
                         (case read_regions device ocp_data_header log_size of
                            Inl e \<Rightarrow> Inl e
                          | Inr logs \<Rightarrow>
                              Inr (ata_device_internal_status_of page0, ocp_data_header, logs)))))"

lemma range_pages_not_Truncated:
  "range_pages device page_idx page_offset dwords_to_read capacity \<noteq> Inl Truncated"
proof (induction device page_idx page_offset dwords_to_read capacity rule: range_pages.induct)
  case (1 device page_idx page_offset dwords_to_read capacity)
  show ?case
    using "1.IH"
    by (subst range_pages.simps) (auto split: option.splits sum.splits)
qed

lemma fetch_region_not_Truncated:
  "fetch_region device log_size start_dword size_dword logs \<noteq> Inl Truncated"
  using range_pages_not_Truncated
  by (auto simp: fetch_region_def read_ocp_telemetry_data_range_sata_def Let_def
      split: sum.splits)

lemma read_regions_not_Truncated: "read_regions device header log_size \<noteq> Inl Truncated"
  using fetch_region_not_Truncated
  by (auto simp: read_regions_def split: sum.splits)

lemma read_statistics_Truncated_iff:
  "read_ata_ocp_telemetry_statistics malloc_ok device nsectors = Inl Truncated \<longleftrightarrow>
     (\<exists>page0 page1.
        ataReadLogExt device 0x24 0 = Some page0 \<and>
        area1_last_log_page (ata_device_internal_status_of page0) \<noteq> 0 \<and>
        ataReadLogExt device 0x24 1 = Some page1 \<and>
        \<not> validate_ocp_telemetry_data_header (ocp_telemetry_data_header_of page1) nsectors)"
  using read_regions_not_Truncated
  by (auto simp: read_ata_ocp_telemetry_statistics_def Let_def split: option.splits sum.splits)


definition two_page_device :: ata_device where
  "two_page_device logaddr page =
     (if page = 0 then Some (replicate 8 0 @ [1, 0] @ replicate 502 0)
      else Some (replicate 512 0))"

lemma validate_truncating_division:
  "validate_ocp_telemetry_data_header header_s2_513 5 \<and> \<not> claimed_validation header_s2_513 5"
  by (simp add: validate_iff_quotient header_max_dword_amended amended_max_dword_def
      statistics_max_dword_def region_extent_def header_s2_513_def zero_header_def
      claimed_validation_def claimed_max_dword_def)

text \<open>
  Claim C3, as stated: validation succeeds exactly when the budget is at least
  \<open>ceil(max_dword / 128) + 1\<close>, where S1 counts only when S2 is empty. With S2 at dwords
  0..9 and S1 at dwords 0..1023 the stated maximum is 512 and a budget of 5 pages would
  do; the code looks at S1 because the extent of S2 does not exceed 512, reaches
  \<open>max_dword = 1024\<close> and rejects the budget.
\<close>

theorem claimed_validation_counterexample:
  "\<not> (validate_ocp_telemetry_data_header header_s1_behind_s2 5
        \<longleftrightarrow> claimed_validation header_s1_behind_s2 (unat (5 :: u32)))"
  by (simp add: validate_iff_quotient header_max_dword_amended amended_max_dword_def
      statistics_max_dword_def region_extent_def header_s1_behind_s2_def zero_header_def
      claimed_validation_def claimed_max_dword_def)

text \<open>
  Claim C3, amended. \<^verbatim>\<open>max_dword\<close> is the maximum of 512, the extent of S2 when S2 is not
  empty, the extent of S1 when S1 is not empty and S2 is empty or ends within the first
  512 dwords, the extent of E2 when E2 is not empty, and the extent of E1 when E1 is not
  empty and E2 is empty or does not exceed the maximum of the statistics areas; extents
  are 64-bit sums. Validation succeeds whenever the budget is at least
  \<open>ceil(max_dword / 128) + 1\<close> pages, and it fails whenever the budget is below
  \<open>floor(max_dword / 128) + 1\<close>. The read of log 0x24 fails as truncated exactly when
  pages 0 and 1 were read, area 1 is present, and validation fails.
\<close>

theorem validate_budget_bounds:
  "unat (header_max_dword header) = amended_max_dword header
   \<and> ((amended_max_dword header + 127) div 128 + 1 \<le> unat nsectors
        \<longrightarrow> validate_ocp_telemetry_data_header header nsectors)
   \<and> (validate_ocp_telemetry_data_header header nsectors
        \<longrightarrow> amended_max_dword header div 128 + 1 \<le> unat nsectors)
   \<and> (read_ata_ocp_telemetry_statistics malloc_ok device nsectors = Inl Truncated \<longleftrightarrow>
        (\<exists>page0 page1.
           ataReadLogExt device 0x24 0 = Some page0 \<and>
           area1_last_log_page (ata_device_internal_status_of page0) \<noteq> 0 \<and>
           ataReadLogExt device 0x24 1 = Some page1 \<and>
           \<not> validate_ocp_telemetry_data_header (ocp_telemetry_data_header_of page1) nsectors))"
proof -
  have "amended_max_dword header div 128 \<le> (amended_max_dword header + 127) div 128"
    by (rule div_le_mono) simp
  then show ?thesis
    by (simp add: validate_iff_quotient header_max_dword_amended
        read_statistics_Truncated_iff)
qed

lemma le16_zero: "2 \<le> n \<Longrightarrow> sg_get_unaligned_le16 (replicate n 0) = 0"
  by (simp add: sg_get_unaligned_le16_def)

lemma le64_zero: "8 \<le> n \<Longrightarrow> sg_get_unaligned_le64 (replicate n 0) = 0"
  by (simp add: sg_get_unaligned_le64_def sg_get_unaligned_le32_def)

lemma header_of_zero_page: "ocp_telemetry_data_header_of (replicate 512 0) = zero_header"
  by (simp add: ocp_telemetry_data_header_of_def zero_header_def le16_zero le64_zero)

theorem validate_budget_bounds_witness:
  "(amended_max_dword header_s2_513 + 127) div 128 + 1 \<le> unat (6 :: u32)
   \<and> validate_ocp_telemetry_data_header header_s2_513 6
   \<and> \<not> validate_ocp_telemetry_data_header header_s1_behind_s2 5
   \<and> read_ata_ocp_telemetry_statistics (\<lambda>n. True) two_page_device 4 = Inl Truncated"
proof -
  have a: "amended_max_dword header_s2_513 = 513"
    by (simp add: amended_max_dword_def statistics_max_dword_def region_extent_def
        header_s2_513_def zero_header_def)
  have b: "amended_max_dword header_s1_behind_s2 = 1024"
    by (simp add: amended_max_dword_def statistics_max_dword_def region_extent_def
        header_s1_behind_s2_def zero_header_def)
  have z: "amended_max_dword zero_header = 512"
    by (simp add: amended_max_dword_def statistics_max_dword_def region_extent_def
        zero_header_def)
  have p0: "ataReadLogExt two_page_device 0x24 0 = Some (replicate 8 0 @ [1, 0] @ replicate 502 0)"
    by (simp add: ataReadLogExt_def two_page_device_def)
  have p1: "ataReadLogExt two_page_device 0x24 1 = Some (replicate 512 0)"
    by (simp add: ataReadLogExt_def two_page_device_def)
  have area: "area1_last_log_page
                (ata_device_internal_status_of (replicate 8 0 @ [1, 0] @ replicate 502 0)) \<noteq> 0"
    by (simp add: ata_device_internal_status_of_def sg_get_unaligned_le16_def word_cat_eq)
  have nv: "\<not> validate_ocp_telemetry_data_header zero_header 4"
    using validate_budget_bounds [of zero_header 4] by (simp add: z)
  have "\<exists>page0 page1.
           ataReadLogExt two_page_device 0x24 0 = Some page0 \<and>
           area1_last_log_page (ata_device_internal_status_of page0) \<noteq> 0 \<and>
           ataReadLogExt two_page_device 0x24 1 = Some page1 \<and>
           \<not> validate_ocp_telemetry_data_header (ocp_telemetry_data_header_of page1) 4"
  proof (intro exI conjI)
    show "ataReadLogExt two_page_device 0x24 0 = Some (replicate 8 0 @ [1, 0] @ replicate 502 0)"
      by (rule p0)
    show "area1_last_log_page
            (ata_device_internal_status_of (replicate 8 0 @ [1, 0] @ replicate 502 0)) \<noteq> 0"
      by (rule area)
    show "ataReadLogExt two_page_device 0x24 1 = Some (replicate 512 0)"
      by (rule p1)
    show "\<not> validate_ocp_telemetry_data_header (ocp_telemetry_data_header_of (replicate 512 0)) 4"
      unfolding header_of_zero_page by (rule nv)
  qed
  then have tr: "read_ata_ocp_telemetry_statistics (\<lambda>n. True) two_page_device 4 = Inl Truncated"
    using validate_budget_bounds [of zero_header 4 "\<lambda>n. True" two_page_device]
    by blast
  show ?thesis
    using validate_budget_bounds [of header_s2_513 6]
      validate_budget_bounds [of header_s1_behind_s2 5] tr
    by (simp add: a b)
qed

section \<open>The string catalog and statistic names\<close>

text \<open>Checked reads of one field at a byte offset of a buffer.\<close>

definition rd_u8 :: "u8 list \<Rightarrow> nat \<Rightarrow> u8 option" where
  "rd_u8 mem off = (if off < length mem then Some (mem ! off) else None)"

definition rd_le16 :: "u8 list \<Rightarrow> nat \<Rightarrow> u16 option" where
  "rd_le16 mem off = map_option sg_get_unaligned_le16 (rd mem off 2)"

definition rd_le32 :: "u8 list \<Rightarrow> nat \<Rightarrow> u32 option" where
  "rd_le32 mem off = map_option sg_get_unaligned_le32 (rd mem off 4)"

definition rd_le64 :: "u8 list \<Rightarrow> nat \<Rightarrow> u64 option" where
  "rd_le64 mem off = map_option sg_get_unaligned_le64 (rd mem off 8)"

text \<open>
  The entries of the string tables of log 0x25 and \<^verbatim>\<open>ocp_string_def\<close>
  (smartmon/ocptelemetry.h). The two \<^verbatim>\<open>std::map\<close> members are partial functions;
  \<^verbatim>\<open>ocp_string_ascii_table\<close> is the ASCII blob, empty when none was allocated. The
  fields of the event entry carry the prefix \<open>entry_\<close>, since their names in the source
  are used for variables and for the fields of the statistic entry.
\<close>

record ocp_statistic_id_string_table_entry =
  vu_statistic_id :: u16
  ascii_id_len :: u8
  ascii_id_offset :: "u8 list"

record ocp_event_id_string_table_entry =
  entry_dbg_class :: u8
  entry_id :: "u8 list"
  entry_ascii_id_len :: u8
  entry_ascii_id_offset :: "u8 list"

record ocp_string_def =
  stat_id_string_map :: "u16 \<rightharpoonup> ocp_statistic_id_string_table_entry"
  event_string_map :: "u32 \<rightharpoonup> ocp_event_id_string_table_entry"
  ocp_string_ascii_table :: "u8 list"
  event_fifo_1_name :: string
  event_fifo_2_name :: string

text \<open>\<^verbatim>\<open>ocp_builtin_stat_str\<close> (smartmon/ocptelemetry.h), in the order of the source.\<close>

definition ocp_builtin_stat_str :: "(u16 \<times> string) list" where
  "ocp_builtin_stat_str =
     [
      (0x0002, ''ATA Log''),
      (0x0003, ''SCSI Log Page''),
      (0x2001, ''Reallocated Block Count''),
      (0x2002, ''Pending Defects Count''),
      (0x2003, ''Power-on Hours Count''),
      (0x2004, ''Power-on Cycle Count''),
      (0x2005, ''Spare Blocks Used''),
      (0x2006, ''Spare Blocks Remaining''),
      (0x2007, ''Unexpected Power Loss Count''),
      (0x2008, ''Current Temperature''),
      (0x2009, ''Minimum Lifetime Temperature''),
      (0x200a, ''Maximum Lifetime Temperature''),
      (0x200b, ''Uncorrectable Read Error Count''),
      (0x200c, ''Background Uncorrectable Read Error Count''),
      (0x200d, ''Interface CRC Error Count''),
      (0x200e, ''Volatile Memory Backup Source Failure''),
      (0x200f, ''Read Only Mode''),
      (0x2010, ''Host Write Commands''),
      (0x2011, ''Host Read Commands''),
      (0x2012, ''Logical Blocks Read''),
      (0x2013, ''Logical Blocks Written''),
      (0x2014, ''Total Media Writes''),
      (0x2015, ''Total Media Reads''),
      (0x2016, ''Soft ECC Error Count''),
      (0x2017, ''Host Trim/Unmap Commands''),
      (0x2018, ''End-to-end Detected Errors''),
      (0x2019, ''End-to-end Corrected Errors''),
      (0x201a, ''Unaligned I/O count''),
      (0x201b, ''Security version number''),
      (0x201c, ''Thermal Throttling Status''),
      (0x201d, ''Thermal Throttling Count''),
      (0x201e, ''DSS Specification Version''),
      (0x201f, ''Incomplete Shutdown Count''),
      (0x2020, ''Percent Free Blocks''),
      (0x2021, ''Lowest Permitted Firmware Revision''),
      (0x2022, ''Maximum Peak Power Capability''),
      (0x2023, ''Current Maximum Average Power''),
      (0x2024, ''Lifetime Power Consumed''),
      (0x2025, ''Power Changes''),
      (0x2026, ''Phy Reinitialization Count''),
      (0x2027, ''Secondary Phy Reinitialization Count''),
      (0x2028, ''Command Timeouts''),
      (0x2029, ''Hardware Revision''),
      (0x202a, ''Firmware Revision''),
      (0x4001, ''Raw Capacity''),
      (0x4002, ''User Capacity''),
      (0x4003, ''Erase Count''),
      (0x4004, ''Erase Fail Count''),
      (0x4005, ''Maximum Erase Count''),
      (0x4006, ''Average Erase Count''),
      (0x4007, ''Program Fail Count''),
      (0x4008, ''XOR Recovery Count''),
      (0x4009, ''Percent Device Life Remaining''),
      (0x400a, ''Lifetime Erase Count''),
      (0x400b, ''Bad User NAND Blocks''),
      (0x400c, ''Bad System NAND Blocks''),
      (0x400d, ''Minimum Erase Count''),
      (0x400e, ''Power Loss Protection Start Count''),
      (0x400f, ''System Data Percent Used''),
      (0x4010, ''Power Loss Protection Health''),
      (0x4011, ''Endurance Estimate''),
      (0x4012, ''Percent User Spare Available''),
      (0x4013, ''Percent System Spare Available''),
      (0x4014, ''Total Media Dies''),
      (0x4015, ''Media Die Failure Tolerance''),
      (0x4016, ''Media Dies Offline''),
      (0x4017, ''System Area Program Fail Count''),
      (0x4018, ''System Area Program Fail Percentage Remaining''),
      (0x4019, ''System Area Uncorrectable Read Error Count''),
      (0x401a, ''System Area Uncorrectable Read Percentage Remaining''),
      (0x401b, ''System Area Erase Fail Count''),
      (0x401c, ''System Area Erase Fail Percentage Remaining''),
      (0x6001, ''Start/Stop Count''),
      (0x6002, ''Load Cycle Count''),
      (0x6003, ''Shock Overlimit Count''),
      (0x6004, ''Head Flying Hours''),
      (0x6005, ''Free Fall Events Count''),
      (0x6006, ''Spinup Times'')
     ]"

definition OCP_STR_BUF_SIZE :: nat where
  "OCP_STR_BUF_SIZE = 256"

text \<open>
  The string that a character buffer holds after \<^verbatim>\<open>strncpy(buf, src, n)\<close>, and after
  \<^verbatim>\<open>snprintf(buf, n, "%s", src)\<close>. \<^verbatim>\<open>strncpy\<close> writes no terminator when \<open>src\<close> has
  \<open>n\<close> characters or more; the buffer then holds no string (\<open>None\<close>).
\<close>

definition strncpy_str :: "string \<Rightarrow> nat \<Rightarrow> string option" where
  "strncpy_str src n = (if length src < n then Some src else None)"

definition snprintf_str :: "nat \<Rightarrow> string \<Rightarrow> string" where
  "snprintf_str n src = take (n - 1) src"

text \<open>
  \<^verbatim>\<open>ocp_stat_id_to_str\<close> (ocptelemetryprint.cpp, lines 231-252). \<open>builtin_stat_search\<close>
  is the \<^verbatim>\<open>for\<close> loop over the built-in table, which returns from the function at the
  first entry with the id. The result is the string left in \<^verbatim>\<open>stat_str\<close>: for a catalog
  entry the \<^verbatim>\<open>ascii_id_len\<close> bytes copied from the blob, in front of the terminator
  written at index \<^verbatim>\<open>ascii_id_len\<close>. \<open>None\<close> is a copy from outside the blob or a
  write outside the buffer of \<open>size\<close> characters.
\<close>

fun builtin_stat_search :: "(u16 \<times> string) list \<Rightarrow> u16 \<Rightarrow> nat \<Rightarrow> string option option" where
  "builtin_stat_search [] stat_id buf_size = None"
| "builtin_stat_search ((k, desc) # rest) stat_id buf_size =
     (if k = stat_id then Some (strncpy_str desc (buf_size - 1)) else builtin_stat_search rest stat_id buf_size)"

definition ocp_stat_id_to_str :: "ocp_string_def \<Rightarrow> u16 \<Rightarrow> nat \<Rightarrow> string option" where
  "ocp_stat_id_to_str string_def stat_id buf_size =
     (case builtin_stat_search ocp_builtin_stat_str stat_id buf_size of
        Some stat_str \<Rightarrow> stat_str
      | None \<Rightarrow>
          if stat_id \<ge> 0x8000 then
            (case stat_id_string_map string_def stat_id of
               Some entry \<Rightarrow>
                 (case rd (ocp_string_ascii_table string_def)
                         (unat (sg_get_unaligned_le64 (ascii_id_offset entry)))
                         (unat (ascii_id_len entry)) of
                    None \<Rightarrow> None
                  | Some bytes \<Rightarrow>
                      if unat (ascii_id_len entry) < buf_size then Some (c_str bytes) else None)
             | None \<Rightarrow> Some (snprintf_str buf_size ''Vendor Unique ID''))
          else Some (snprintf_str buf_size ''Reserved ID''))"

lemma builtin_stat_search_map_of:
  "\<forall>(k, desc) \<in> set tbl. length desc < buf_size - 1 \<Longrightarrow>
   builtin_stat_search tbl stat_id buf_size = map_option Some (map_of tbl stat_id)"
  by (induction tbl) (auto simp: strncpy_str_def)

lemma builtin_names_fit:
  "\<forall>(k, desc) \<in> set ocp_builtin_stat_str. length desc < OCP_STR_BUF_SIZE - 1"
  by (simp add: ocp_builtin_stat_str_def OCP_STR_BUF_SIZE_def)

lemma builtin_stat_search_eq:
  "builtin_stat_search ocp_builtin_stat_str stat_id OCP_STR_BUF_SIZE
     = map_option Some (map_of ocp_builtin_stat_str stat_id)"
  using builtin_names_fit by (rule builtin_stat_search_map_of)


definition example_catalog :: ocp_string_def where
  "example_catalog =
     \<lparr>stat_id_string_map =
        [0x2003 \<mapsto> \<lparr>vu_statistic_id = 0x2003, ascii_id_len = 3,
                     ascii_id_offset = [0, 0, 0, 0, 0, 0, 0, 0]\<rparr>,
         0x8001 \<mapsto> \<lparr>vu_statistic_id = 0x8001, ascii_id_len = 4,
                     ascii_id_offset = [3, 0, 0, 0, 0, 0, 0, 0]\<rparr>],
      event_string_map =
        [0x0B0431 \<mapsto> \<lparr>entry_dbg_class = 0x0B, entry_id = [0x31, 0x04], entry_ascii_id_len = 5,
                       entry_ascii_id_offset = [7, 0, 0, 0, 0, 0, 0, 0]\<rparr>,
         0x0B0000 \<mapsto> \<lparr>entry_dbg_class = 0x0B, entry_id = [0x00, 0x00], entry_ascii_id_len = 5,
                       entry_ascii_id_offset = [12, 0, 0, 0, 0, 0, 0, 0]\<rparr>],
      ocp_string_ascii_table =
        [0x50, 0x4F, 0x48, 0x57, 0x45, 0x41, 0x52, 0x46, 0x49, 0x46, 0x4F, 0x41, 0x5A, 0x45,
         0x52, 0x4F, 0x5A],
      event_fifo_1_name = ''FIFO1'',
      event_fifo_2_name = ''FIFO2''\<rparr>"

lemma ocp_stat_id_to_str_cases:
  "ocp_stat_id_to_str string_def stat_id OCP_STR_BUF_SIZE =
     (case map_of ocp_builtin_stat_str stat_id of
        Some name \<Rightarrow> Some name
      | None \<Rightarrow>
          if stat_id \<ge> 0x8000 then
            (case stat_id_string_map string_def stat_id of
               Some entry \<Rightarrow>
                 (let off = unat (sg_get_unaligned_le64 (ascii_id_offset entry));
                      len = unat (ascii_id_len entry)
                  in if off + len \<le> length (ocp_string_ascii_table string_def)
                     then Some (c_str (take len (drop off (ocp_string_ascii_table string_def))))
                     else None)
             | None \<Rightarrow> Some ''Vendor Unique ID'')
          else Some ''Reserved ID'')"
proof -
  have len: "unat (ascii_id_len e) < OCP_STR_BUF_SIZE" for e :: ocp_statistic_id_string_table_entry
    using unat_u8_lt [of "ascii_id_len e"] by (simp add: OCP_STR_BUF_SIZE_def)
  have v: "snprintf_str OCP_STR_BUF_SIZE ''Vendor Unique ID'' = ''Vendor Unique ID''"
    by (simp add: snprintf_str_def OCP_STR_BUF_SIZE_def)
  have r: "snprintf_str OCP_STR_BUF_SIZE ''Reserved ID'' = ''Reserved ID''"
    by (simp add: snprintf_str_def OCP_STR_BUF_SIZE_def)
  show ?thesis
    unfolding ocp_stat_id_to_str_def builtin_stat_search_eq v r
    by (auto simp: rd_def len Let_def split: option.splits)
qed

lemma example_catalog_vendor_name:
  "ocp_stat_id_to_str example_catalog 0x8001 OCP_STR_BUF_SIZE = Some ''WEAR''
   \<and> ocp_stat_id_to_str example_catalog 0x8002 OCP_STR_BUF_SIZE = Some ''Vendor Unique ID''
   \<and> ocp_stat_id_to_str example_catalog 0x7000 OCP_STR_BUF_SIZE = Some ''Reserved ID''"
proof -
  have "map_of ocp_builtin_stat_str 0x8001 = None" "map_of ocp_builtin_stat_str 0x8002 = None"
    "map_of ocp_builtin_stat_str 0x7000 = None"
    by (simp_all add: ocp_builtin_stat_str_def)
  then show ?thesis
    by (simp add: ocp_stat_id_to_str_cases example_catalog_def
        sg_get_unaligned_le64_def sg_get_unaligned_le32_def word_cat_eq c_str_def char_of_def bit_0)
qed

text \<open>
  Claim C6. The built-in table is searched first and its name returned when the id is
  there, whatever the catalog holds for the id. Otherwise an id of \<open>0x8000\<close> or more is
  looked up in the statistics-id map of the catalog: if present, the result is the
  \<open>ascii_id_len\<close> bytes of the ASCII blob from \<open>ascii_id_offset\<close> on (the copy is
  defined when the blob has these bytes), and \<open>Vendor Unique ID\<close> if absent. Any other
  id gives \<open>Reserved ID\<close>.
\<close>

theorem stat_id_name_resolution:
  "ocp_stat_id_to_str string_def stat_id OCP_STR_BUF_SIZE =
     (case map_of ocp_builtin_stat_str stat_id of
        Some name \<Rightarrow> Some name
      | None \<Rightarrow>
          if stat_id \<ge> 0x8000 then
            (case stat_id_string_map string_def stat_id of
               Some entry \<Rightarrow>
                 (let off = unat (sg_get_unaligned_le64 (ascii_id_offset entry));
                      len = unat (ascii_id_len entry)
                  in if off + len \<le> length (ocp_string_ascii_table string_def)
                     then Some (c_str (take len (drop off (ocp_string_ascii_table string_def))))
                     else None)
             | None \<Rightarrow> Some ''Vendor Unique ID'')
          else Some ''Reserved ID'')
   \<and> (stat_id \<in> dom (map_of ocp_builtin_stat_str) \<and> stat_id \<in> dom (stat_id_string_map string_def)
        \<longrightarrow> ocp_stat_id_to_str string_def stat_id OCP_STR_BUF_SIZE
              = map_of ocp_builtin_stat_str stat_id)"
  by (auto simp: ocp_stat_id_to_str_cases)

theorem stat_id_name_resolution_witness:
  "0x2003 \<in> dom (map_of ocp_builtin_stat_str)
   \<and> 0x2003 \<in> dom (stat_id_string_map example_catalog)
   \<and> ocp_stat_id_to_str example_catalog 0x2003 OCP_STR_BUF_SIZE = Some ''Power-on Hours Count''"
proof -
  have b: "map_of ocp_builtin_stat_str 0x2003 = Some ''Power-on Hours Count''"
    by (simp add: ocp_builtin_stat_str_def)
  have c: "0x2003 \<in> dom (stat_id_string_map example_catalog)"
    by (simp add: example_catalog_def)
  from b have d: "0x2003 \<in> dom (map_of ocp_builtin_stat_str)"
    by (rule domI)
  show ?thesis
    using stat_id_name_resolution [of example_catalog "0x2003"] b c d by simp
qed

section \<open>Statistic descriptors\<close>

text \<open>
  A statistic descriptor (\<^verbatim>\<open>struct ocp_statistic_descriptor\<close>) lies at byte offset \<open>sp\<close>
  of the buffer: \<^verbatim>\<open>statistics_id\<close> at \<open>sp\<close>, \<^verbatim>\<open>statistics_info[0..2]\<close> at \<open>sp + 2\<close>,
  \<^verbatim>\<open>statistic_data_size\<close> at \<open>sp + 6\<close>, the body at \<open>sp + 8\<close>. The printing functions
  write text with \<^verbatim>\<open>jout\<close> and values into a JSON tree; the model returns what they
  report, or \<open>None\<close> when they read outside the buffer. Memory allocation is taken to
  succeed.
\<close>

datatype ocp_stat_type = OCP_STAT_TYPE_SINGLE | OCP_STAT_TYPE_ARRAY | OCP_STAT_TYPE_CUSTOM

datatype ocp_data_type =
  OCP_DATA_TYPE_NA | OCP_DATA_TYPE_INT | OCP_DATA_TYPE_UINT | OCP_DATA_TYPE_FP | OCP_DATA_TYPE_ASCII

text \<open>\<^verbatim>\<open>ocp_get_stat_type\<close> and \<^verbatim>\<open>ocp_get_data_type\<close> (lines 213-229); the return value
  \<open>-1\<close> is \<open>None\<close>.\<close>

definition ocp_get_stat_type :: "u8 \<Rightarrow> ocp_stat_type option" where
  "ocp_get_stat_type info_0 =
     (let field_value = drop_bit 4 info_0 AND 0xf in
      if field_value > 2 then None
      else if field_value = 0 then Some OCP_STAT_TYPE_SINGLE
      else if field_value = 1 then Some OCP_STAT_TYPE_ARRAY
      else Some OCP_STAT_TYPE_CUSTOM)"

definition ocp_get_data_type :: "u8 \<Rightarrow> ocp_data_type option" where
  "ocp_get_data_type info_2 =
     (let field_value = info_2 AND 0xf in
      if field_value > 4 then None
      else if field_value = 0 then Some OCP_DATA_TYPE_NA
      else if field_value = 1 then Some OCP_DATA_TYPE_INT
      else if field_value = 2 then Some OCP_DATA_TYPE_UINT
      else if field_value = 3 then Some OCP_DATA_TYPE_FP
      else Some OCP_DATA_TYPE_ASCII)"

text \<open>\<^verbatim>\<open>ocp_get_uint_val\<close> and \<^verbatim>\<open>ocp_get_int_val\<close> (lines 144-178): a width other than
  1, 2, 4 or 8 gives 0 and reads nothing.\<close>

definition ocp_get_uint_val :: "u8 list \<Rightarrow> nat \<Rightarrow> nat \<Rightarrow> u64 option" where
  "ocp_get_uint_val mem data sz =
     (if sz = 1 then map_option ucast (rd_u8 mem data)
      else if sz = 2 then map_option ucast (rd_le16 mem data)
      else if sz = 4 then map_option ucast (rd_le32 mem data)
      else if sz = 8 then rd_le64 mem data
      else Some 0)"

definition ocp_get_int_val :: "u8 list \<Rightarrow> nat \<Rightarrow> nat \<Rightarrow> int option" where
  "ocp_get_int_val mem data sz =
     (if sz = 1 then map_option sint (rd_u8 mem data)
      else if sz = 2 then map_option sint (rd_le16 mem data)
      else if sz = 4 then map_option sint (rd_le32 mem data)
      else if sz = 8 then map_option sint (rd_le64 mem data)
      else Some 0)"

text \<open>
  \<^verbatim>\<open>hex_dump_line\<close> (lines 107-123) reports the bytes it dumps. For no bytes at all
  \<^verbatim>\<open>hex_dump\<close> writes nothing into the fresh buffer, which is then printed as a string:
  no defined result.
\<close>

definition hex_dump_line :: "u8 list \<Rightarrow> nat \<Rightarrow> nat \<Rightarrow> u8 list option" where
  "hex_dump_line mem data sz = (if sz = 0 then None else rd mem data sz)"

text \<open>\<^verbatim>\<open>hex_dump_lines\<close> (lines 125-142) dumps 16 bytes a line; nothing for no bytes.\<close>

definition hex_dump_lines :: "u8 list \<Rightarrow> nat \<Rightarrow> nat \<Rightarrow> u8 list option" where
  "hex_dump_lines mem data sz = rd mem data sz"

datatype stat_value = Int_value int | Uint_value nat | Ascii_value string | Hex_dump "u8 list"

text \<open>\<^verbatim>\<open>ocp_print_stat_value\<close> (lines 180-211). A string is printed with \<^verbatim>\<open>%s\<close>, up to its
  first NUL.\<close>

definition ocp_print_stat_value :: "ocp_data_type \<Rightarrow> u8 list \<Rightarrow> nat \<Rightarrow> nat \<Rightarrow> stat_value option" where
  "ocp_print_stat_value type mem data sz =
     (case type of
        OCP_DATA_TYPE_INT \<Rightarrow> map_option Int_value (ocp_get_int_val mem data sz)
      | OCP_DATA_TYPE_UINT \<Rightarrow> map_option (\<lambda>v. Uint_value (unat v)) (ocp_get_uint_val mem data sz)
      | OCP_DATA_TYPE_ASCII \<Rightarrow>
          map_option (\<lambda>bytes. Ascii_value (c_string_of (c_str bytes)))
            (ocp_ascii_to_c_str mem data sz (size_t_add sz 1))
      | OCP_DATA_TYPE_FP \<Rightarrow> map_option Hex_dump (hex_dump_line mem data sz)
      | OCP_DATA_TYPE_NA \<Rightarrow> map_option Hex_dump (hex_dump_line mem data sz))"

text \<open>What is reported for the body of a descriptor, and for a descriptor.\<close>

datatype stat_data =
    Single_data stat_value
  | Array_data "stat_value list"
  | Ata_log_data u8 u8 u16 "u8 list list"
  | Scsi_log_data u8 u8 "u8 list"
  | Hdd_spinup_data "u16 option" "u16 option" "u16 list"

record stat_report =
  report_ID :: string
  report_statistics_id :: u16
  report_statistic_type :: u8
  report_behavior_type :: u8
  report_unit :: "u8 \<times> string"
  report_host_hint_type :: u8
  report_data_type :: u8
  report_data_size :: u16
  report_data :: stat_data

datatype stat_item = Heading nat | Diagnostic diagnostic | Report stat_report

definition ocp_stat_data_unit_str :: "string list" where
  "ocp_stat_data_unit_str =
     [''N/A'', ''ms'', ''s'', ''h'', ''d'', ''MB'', ''GB'', ''TB'', ''PB'', ''C'', ''K'', ''F'',
      ''mV'', ''mA'', ''Ohm'', ''RPM'', ''micrometer'', ''nanometer'', ''angstroms'']"

definition OCP_UNIT_TYPE_MAX :: u8 where
  "OCP_UNIT_TYPE_MAX = 0x12"

text \<open>The three custom descriptors (lines 254-322) and their dispatch (lines 324-343).\<close>

fun ata_log_pages :: "u8 list \<Rightarrow> nat \<Rightarrow> nat \<Rightarrow> u8 list list option" where
  "ata_log_pages mem log_page_pos 0 = Some []"
| "ata_log_pages mem log_page_pos (Suc n) =
     do {
       page \<leftarrow> hex_dump_lines mem log_page_pos 512;
       pages \<leftarrow> ata_log_pages mem (log_page_pos + 512) n;
       Some (page # pages)
     }"

definition print_ata_log_stat_desc :: "u8 list \<Rightarrow> nat \<Rightarrow> stat_data option" where
  "print_ata_log_stat_desc mem sp =
     do {
       log_addr \<leftarrow> rd_u8 mem (sp + 8);
       log_page_count \<leftarrow> rd_u8 mem (sp + 9);
       initial_log_page \<leftarrow> rd_le16 mem (sp + 10);
       pages \<leftarrow> ata_log_pages mem (sp + 12) (unat log_page_count);
       Some (Ata_log_data log_addr log_page_count initial_log_page pages)
     }"

definition print_scsi_log_stat_desc :: "u8 list \<Rightarrow> nat \<Rightarrow> stat_data option" where
  "print_scsi_log_stat_desc mem sp =
     do {
       log_page \<leftarrow> rd_u8 mem (sp + 8);
       log_subpage \<leftarrow> rd_u8 mem (sp + 9);
       statistic_data_size \<leftarrow> rd_le16 mem (sp + 6);
       log_page_data \<leftarrow>
         hex_dump_lines mem (sp + 12) (size_t_sub (4 * unat statistic_data_size) 4);
       Some (Scsi_log_data log_page log_subpage log_page_data)
     }"

fun spinup_hist :: "u8 list \<Rightarrow> nat \<Rightarrow> nat \<Rightarrow> u16 list option" where
  "spinup_hist mem pos 0 = Some []"
| "spinup_hist mem pos (Suc n) =
     do {
       spinup_val \<leftarrow> rd_le16 mem pos;
       if spinup_val = 0 then Some []
       else do { rest \<leftarrow> spinup_hist mem (pos + 2) n; Some (spinup_val # rest) }
     }"

definition print_hdd_spinup_stat_desc :: "u8 list \<Rightarrow> nat \<Rightarrow> stat_data option" where
  "print_hdd_spinup_stat_desc mem sp =
     do {
       spinup_max \<leftarrow> rd_le16 mem (sp + 8);
       spinup_min \<leftarrow> rd_le16 mem (sp + 10);
       hist \<leftarrow> spinup_hist mem (sp + 12) 10;
       Some (Hdd_spinup_data (if spinup_max \<noteq> 0 then Some spinup_max else None)
               (if spinup_min \<noteq> 0 then Some spinup_min else None) hist)
     }"

definition print_custom_stat_desc :: "u8 list \<Rightarrow> nat \<Rightarrow> ocp_data_type \<Rightarrow> stat_data option" where
  "print_custom_stat_desc mem sp data_type =
     do {
       statistics_id \<leftarrow> rd_le16 mem sp;
       if statistics_id = 0x02 then print_ata_log_stat_desc mem sp
       else if statistics_id = 0x03 then print_scsi_log_stat_desc mem sp
       else if statistics_id = 0x6006 then print_hdd_spinup_stat_desc mem sp
       else do {
         statistic_data_size \<leftarrow> rd_le16 mem (sp + 6);
         v \<leftarrow> ocp_print_stat_value data_type mem (sp + 8) (4 * unat statistic_data_size);
         Some (Single_data v)
       }
     }"

text \<open>The elements of an ARRAY body: the \<^verbatim>\<open>for\<close> loop of \<^verbatim>\<open>ocp_print_stat_desc\<close>, run
  \<^verbatim>\<open>number_of_elements + 1\<close> times with elements of \<^verbatim>\<open>element_size + 1\<close> bytes.\<close>

fun array_elements :: "ocp_data_type \<Rightarrow> u8 list \<Rightarrow> nat \<Rightarrow> nat \<Rightarrow> nat \<Rightarrow> stat_value list option" where
  "array_elements data_type mem data width 0 = Some []"
| "array_elements data_type mem data width (Suc n) =
     do {
       v \<leftarrow> ocp_print_stat_value data_type mem data width;
       vs \<leftarrow> array_elements data_type mem (data + width) width n;
       Some (v # vs)
     }"

text \<open>
  \<^verbatim>\<open>ocp_print_stat_desc\<close> (lines 462-517), with \<^verbatim>\<open>ocp_print_stat_desc_info\<close> (lines
  428-460). \<open>stat_desc_body\<close> is what follows the two checks. The result is the return
  value and the items reported.
\<close>

definition stat_desc_body ::
    "ocp_string_def \<Rightarrow> u8 list \<Rightarrow> nat \<Rightarrow> ocp_stat_type \<Rightarrow> ocp_data_type \<Rightarrow> stat_report option" where
  "stat_desc_body string_def mem sp stat_type data_type =
     do {
       statistics_id \<leftarrow> rd_le16 mem sp;
       stat_id_str \<leftarrow> ocp_stat_id_to_str string_def statistics_id OCP_STR_BUF_SIZE;
       info_0 \<leftarrow> rd_u8 mem (sp + 2);
       info_1 \<leftarrow> rd_u8 mem (sp + 3);
       info_2 \<leftarrow> rd_u8 mem (sp + 4);
       statistic_data_size \<leftarrow> rd_le16 mem (sp + 6);
       d \<leftarrow>
         (case stat_type of
            OCP_STAT_TYPE_SINGLE \<Rightarrow>
              map_option Single_data
                (ocp_print_stat_value data_type mem (sp + 8) (4 * unat statistic_data_size))
          | OCP_STAT_TYPE_ARRAY \<Rightarrow>
              do {
                element_size \<leftarrow> rd_u8 mem (sp + 8);
                number_of_elements \<leftarrow> rd_le16 mem (sp + 10);
                vs \<leftarrow> array_elements data_type mem (sp + 12) (unat element_size + 1)
                        (unat number_of_elements + 1);
                Some (Array_data vs)
              }
          | OCP_STAT_TYPE_CUSTOM \<Rightarrow> print_custom_stat_desc mem sp data_type);
       Some \<lparr>report_ID = c_string_of stat_id_str,
             report_statistics_id = statistics_id,
             report_statistic_type = drop_bit 4 info_0,
             report_behavior_type = info_0 AND 0xf,
             report_unit =
               (info_1, if info_1 > OCP_UNIT_TYPE_MAX then ''Reserved''
                        else ocp_stat_data_unit_str ! unat info_1),
             report_host_hint_type = drop_bit 4 info_2 AND 0x3,
             report_data_type = info_2 AND 0xf,
             report_data_size = statistic_data_size,
             report_data = d\<rparr>
     }"

definition ocp_print_stat_desc ::
    "ocp_string_def \<Rightarrow> u8 list \<Rightarrow> nat \<Rightarrow> (bool \<times> stat_item list) option" where
  "ocp_print_stat_desc string_def mem sp =
     (case rd_u8 mem (sp + 2) of
        None \<Rightarrow> None
      | Some info_0 \<Rightarrow>
          (case ocp_get_stat_type info_0 of
             None \<Rightarrow> Some (False, [Diagnostic Stat_type_not_supported])
           | Some stat_type \<Rightarrow>
               (case rd_u8 mem (sp + 4) of
                  None \<Rightarrow> None
                | Some info_2 \<Rightarrow>
                    (case ocp_get_data_type info_2 of
                       None \<Rightarrow> Some (False, [Diagnostic Data_type_not_supported])
                     | Some data_type \<Rightarrow>
                         map_option (\<lambda>r. (True, [Report r]))
                           (stat_desc_body string_def mem sp stat_type data_type)))))"


section \<open>The statistics walk\<close>

text \<open>
  \<^verbatim>\<open>ocp_print_telemetry_statistics\<close> (lines 519-546). \<open>pos\<close> is the pointer
  \<^verbatim>\<open>log_page_dwords\<close> as a dword index into the buffer, \<open>dwords\<close> the \<^verbatim>\<open>size_t\<close> count
  that is left, \<open>idx\<close> the \<^verbatim>\<open>unsigned\<close> descriptor index. \<open>stat_step\<close> is one pass
  through the body of the \<^verbatim>\<open>while\<close> loop: the loop ends because the count is 0
  (\<open>Exhausted\<close>) or the id is 0 (\<open>End_of_list\<close>), a read leaves the buffer, or the pass
  consumes \<open>dwords_consumed\<close> dwords and reports the items. The walk returns the
  records in order, each with its length in dwords, and how the loop ended.
\<close>

datatype walk_end = End_of_list | Exhausted | Out_of_bounds_read

datatype 'a step = Stop walk_end | Next nat bool "'a list"

definition stat_step :: "ocp_string_def \<Rightarrow> u8 list \<Rightarrow> nat \<Rightarrow> nat \<Rightarrow> nat \<Rightarrow> stat_item step" where
  "stat_step string_def mem pos dwords idx =
     (if dwords = 0 then Stop Exhausted
      else
        (case rd_le16 mem (4 * pos) of
           None \<Rightarrow> Stop Out_of_bounds_read
         | Some statistics_id \<Rightarrow>
             if statistics_id = 0 then Stop End_of_list
             else
               (case rd_le16 mem (4 * pos + 6) of
                  None \<Rightarrow> Stop Out_of_bounds_read
                | Some statistic_data_size \<Rightarrow>
                    (case ocp_print_stat_desc string_def mem (4 * pos) of
                       None \<Rightarrow> Stop Out_of_bounds_read
                     | Some (printed, items) \<Rightarrow>
                         Next (2 + unat statistic_data_size) printed (Heading idx # items)))))"

definition prepend_record :: "nat \<times> 'a list \<Rightarrow> (nat \<times> 'a list) list \<times> walk_end
    \<Rightarrow> (nat \<times> 'a list) list \<times> walk_end" where
  "prepend_record r w = (r # fst w, snd w)"

lemma stat_step_Next:
  assumes "stat_step string_def mem pos dwords idx = Next dwords_consumed printed items"
  shows "2 \<le> dwords_consumed" and "4 * pos < length mem"
  using assms
  by (auto simp: stat_step_def rd_le16_def rd_def split: if_splits option.splits)

function statistics_walk ::
    "ocp_string_def \<Rightarrow> u8 list \<Rightarrow> nat \<Rightarrow> nat \<Rightarrow> nat \<Rightarrow> (nat \<times> stat_item list) list \<times> walk_end" where
  "statistics_walk string_def mem pos dwords idx =
     (case stat_step string_def mem pos dwords idx of
        Stop e \<Rightarrow> ([], e)
      | Next dwords_consumed printed items \<Rightarrow>
          prepend_record (dwords_consumed, items)
            (statistics_walk string_def mem (pos + dwords_consumed)
               (size_t_sub dwords dwords_consumed)
               (if printed then (idx + 1) mod 2 ^ 32 else idx)))"
  by pat_completeness auto
termination
proof (relation "measure (\<lambda>(string_def, mem, pos, dwords, idx). length mem - 4 * pos)")
  show "wf (measure (\<lambda>(string_def :: ocp_string_def, mem :: u8 list, pos :: nat, dwords :: nat,
                       idx :: nat). length mem - 4 * pos))"
    by simp
next
  fix string_def :: ocp_string_def and mem :: "u8 list" and pos dwords idx dwords_consumed :: nat
    and printed :: bool and items :: "stat_item list"
  assume "stat_step string_def mem pos dwords idx = Next dwords_consumed printed items"
  then have "2 \<le> dwords_consumed" and "4 * pos < length mem"
    by (rule stat_step_Next)+
  then show "((string_def, mem, pos + dwords_consumed, size_t_sub dwords dwords_consumed,
               if printed then (idx + 1) mod 2 ^ 32 else idx),
              (string_def, mem, pos, dwords, idx))
             \<in> measure (\<lambda>(string_def, mem, pos, dwords, idx). length mem - 4 * pos)"
    by simp
qed

declare statistics_walk.simps [simp del]

definition ocp_print_telemetry_statistics ::
    "ocp_string_def \<Rightarrow> u8 list \<Rightarrow> nat \<Rightarrow> nat \<Rightarrow> (nat \<times> stat_item list) list \<times> walk_end" where
  "ocp_print_telemetry_statistics string_def mem log_page dwords =
     statistics_walk string_def mem log_page dwords 0"

definition power_on_hours_record :: "u8 list" where
  "power_on_hours_record =
     [0x03, 0x20, 0x00, 0x00, 0x02, 0x00, 0x01, 0x00, 0x39, 0x30, 0x00, 0x00]"

definition power_on_hours_report :: stat_report where
  "power_on_hours_report =
     \<lparr>report_ID = ''Power-on Hours Count'', report_statistics_id = 0x2003,
      report_statistic_type = 0, report_behavior_type = 0, report_unit = (0, ''N/A''),
      report_host_hint_type = 0, report_data_type = 2, report_data_size = 1,
      report_data = Single_data (Uint_value 12345)\<rparr>"

lemma name_2003: "ocp_stat_id_to_str sd 0x2003 OCP_STR_BUF_SIZE = Some ''Power-on Hours Count''"
  by (simp add: ocp_stat_id_to_str_cases ocp_builtin_stat_str_def)

lemma c_string_of_name: "c_string_of ''Power-on Hours Count'' = ''Power-on Hours Count''"
  by (simp add: c_string_of_def NUL_def)

lemma print_power_on_hours:
  "ocp_print_stat_desc sd (power_on_hours_record @ rest) 0
     = Some (True, [Report power_on_hours_report])"
  by (simp add: ocp_print_stat_desc_def power_on_hours_record_def rd_u8_def
      ocp_get_stat_type_def ocp_get_data_type_def stat_desc_body_def rd_le16_def rd_def
      sg_get_unaligned_le16_def word_cat_eq name_2003 c_string_of_name
      ocp_print_stat_value_def ocp_get_uint_val_def rd_le32_def sg_get_unaligned_le32_def
      OCP_UNIT_TYPE_MAX_def ocp_stat_data_unit_str_def power_on_hours_report_def)


lemma statistics_walk_Next:
  "stat_step string_def mem pos dwords idx = Next dwords_consumed printed items \<Longrightarrow>
   statistics_walk string_def mem pos dwords idx =
     prepend_record (dwords_consumed, items)
       (statistics_walk string_def mem (pos + dwords_consumed)
          (size_t_sub dwords dwords_consumed)
          (if printed then (idx + 1) mod 2 ^ 32 else idx))"
  by (subst statistics_walk.simps) simp

lemma statistics_walk_Stop:
  "stat_step string_def mem pos dwords idx = Stop e \<Longrightarrow>
   statistics_walk string_def mem pos dwords idx = ([], e)"
  by (subst statistics_walk.simps) simp

lemma statistics_walk_record:
  assumes "stat_step string_def mem pos dwords idx = Next dwords_consumed printed items"
    and "pos' = pos + dwords_consumed"
    and "dwords' = size_t_sub dwords dwords_consumed"
    and "idx' = (if printed then (idx + 1) mod 2 ^ 32 else idx)"
    and "statistics_walk string_def mem pos' dwords' idx' = (records, e)"
  shows "statistics_walk string_def mem pos dwords idx = ((dwords_consumed, items) # records, e)"
  using statistics_walk_Next [OF assms(1)] assms(2-5)
  by (simp add: prepend_record_def)

lemma step_power_on_hours:
  assumes "dwords \<noteq> 0"
  shows "stat_step sd (power_on_hours_record @ rest) 0 dwords idx
     = Next 3 True [Heading idx, Report power_on_hours_report]"
proof -
  have r1: "rd_le16 (power_on_hours_record @ rest) 0 = Some 0x2003"
    by (simp add: power_on_hours_record_def rd_le16_def rd_def sg_get_unaligned_le16_def
        word_cat_eq)
  have r2: "rd_le16 (power_on_hours_record @ rest) 6 = Some 1"
    by (simp add: power_on_hours_record_def rd_le16_def rd_def sg_get_unaligned_le16_def
        word_cat_eq)
  show ?thesis
    using assms by (simp add: stat_step_def r1 r2 print_power_on_hours)
qed

text \<open>
  Claim C5. The claim: the walk stops exactly when the id is 0 or the count of remaining
  dwords is exhausted, so that the lengths of the records add up to the consumed prefix
  of the region buffer. A region of 2 dwords that holds the header of a descriptor with
  \<^verbatim>\<open>statistic_data_size = 1\<close> makes the pass consume 3 dwords; \<^verbatim>\<open>dwords -= 3\<close> wraps to
  \<open>2^64 - 1\<close>, the value is read behind the region, and the loop goes on behind it: it
  ends at a zero id in the bytes that follow, or with a read outside the allocation when
  the region is its end.
\<close>

theorem statistics_walk_overruns_region:
  "length (take 8 power_on_hours_record) = 4 * 2
   \<and> ocp_print_telemetry_statistics example_catalog
         (take 8 power_on_hours_record @ [0x39, 0x30, 0, 0] @ [0, 0, 0, 0]) 0 2
       = ([(3, [Heading 0, Report power_on_hours_report])], End_of_list)
   \<and> size_t_sub 2 3 = 2 ^ 64 - 1
   \<and> ocp_print_telemetry_statistics example_catalog (take 8 power_on_hours_record) 0 2
       = ([], Out_of_bounds_read)"
proof -
  have m: "take 8 power_on_hours_record @ [0x39, 0x30, 0, 0] @ [0, 0, 0, 0]
             = power_on_hours_record @ [0, 0, 0, 0]"
    by (simp add: power_on_hours_record_def)
  have s1: "stat_step example_catalog (power_on_hours_record @ [0, 0, 0, 0]) 0 2 0
              = Next 3 True [Heading 0, Report power_on_hours_report]"
    by (rule step_power_on_hours) simp
  have s2: "stat_step example_catalog (power_on_hours_record @ [0, 0, 0, 0]) (0 + 3)
              (size_t_sub 2 3) (if True then (0 + 1) mod 2 ^ 32 else 0)
              = Stop End_of_list"
    by (simp add: stat_step_def power_on_hours_record_def rd_le16_def rd_def
        sg_get_unaligned_le16_def word_cat_eq size_t_sub_def)
  have w: "size_t_sub 2 3 = 2 ^ 64 - 1"
    by (simp add: size_t_sub_def)
  have a: "ocp_print_telemetry_statistics example_catalog
         (power_on_hours_record @ [0, 0, 0, 0]) 0 2
       = ([(3, [Heading 0, Report power_on_hours_report])], End_of_list)"
    unfolding ocp_print_telemetry_statistics_def
    by (simp only: statistics_walk_Next [OF s1] statistics_walk_Stop [OF s2]
        prepend_record_def fst_conv snd_conv)
  have b: "stat_step example_catalog (take 8 power_on_hours_record) 0 2 0
             = Stop Out_of_bounds_read"
    by (simp add: stat_step_def power_on_hours_record_def rd_le16_def rd_def
        sg_get_unaligned_le16_def word_cat_eq ocp_print_stat_desc_def rd_u8_def
        ocp_get_stat_type_def ocp_get_data_type_def stat_desc_body_def name_2003
        ocp_print_stat_value_def ocp_get_uint_val_def rd_le32_def)
  have c: "ocp_print_telemetry_statistics example_catalog (take 8 power_on_hours_record) 0 2
       = ([], Out_of_bounds_read)"
    unfolding ocp_print_telemetry_statistics_def
    by (rule statistics_walk_Stop [OF b])
  have l: "length (take 8 power_on_hours_record) = 4 * 2"
    by (simp add: power_on_hours_record_def)
  show ?thesis
    unfolding m using a c w l by (intro conjI)
qed


lemmas stat_eval =
  stat_step_def ocp_print_stat_desc_def rd_u8_def rd_le16_def rd_le32_def rd_def
  sg_get_unaligned_le16_def sg_get_unaligned_le32_def word_cat_eq
  ocp_get_stat_type_def ocp_get_data_type_def stat_desc_body_def
  ocp_print_stat_value_def ocp_get_uint_val_def
  OCP_UNIT_TYPE_MAX_def ocp_stat_data_unit_str_def c_string_of_def NUL_def

definition array_mismatch_record :: "u8 list" where
  "array_mismatch_record =
     [0x03, 0x40, 0x10, 0x00, 0x02, 0x00, 0x06, 0x00,
      0x03, 0x00, 0x00, 0x00,
      1, 0, 0, 0, 2, 0, 0, 0, 3, 0, 0, 0, 4, 0, 0, 0, 5, 0, 0, 0]"

definition array_mismatch_report :: stat_report where
  "array_mismatch_report =
     \<lparr>report_ID = ''Erase Count'', report_statistics_id = 0x4003,
      report_statistic_type = 1, report_behavior_type = 0, report_unit = (0, ''N/A''),
      report_host_hint_type = 0, report_data_type = 2, report_data_size = 6,
      report_data = Array_data [Uint_value 1]\<rparr>"

lemma name_4003: "ocp_stat_id_to_str sd 0x4003 OCP_STR_BUF_SIZE = Some ''Erase Count''"
  by (simp add: ocp_stat_id_to_str_cases ocp_builtin_stat_str_def)

text \<open>
  Claim C4, as stated: a descriptor with a reserved statistic type or data type, or an
  ARRAY descriptor whose body extent \<open>(element_size + 1) * (number_of_elements + 1)\<close>
  disagrees with the declared size, is skipped with a diagnostic. The code never compares
  the extent with the size: an ARRAY descriptor that declares 6 dwords with one element of
  4 bytes (4 bytes against the 20 that follow the element header) is reported with its
  one element, without a diagnostic.
\<close>

theorem array_extent_mismatch_counterexample:
  "(unat (3 :: u8) + 1) * (unat (0 :: u16) + 1) \<noteq> 4 * unat (6 :: u16) - 4
   \<and> rd_u8 array_mismatch_record 8 = Some 3
   \<and> rd_le16 array_mismatch_record 10 = Some 0
   \<and> rd_le16 array_mismatch_record 6 = Some 6
   \<and> ocp_print_telemetry_statistics example_catalog array_mismatch_record 0 8
       = ([(8, [Heading 0, Report array_mismatch_report])], Exhausted)"
proof -
  have s1: "stat_step example_catalog array_mismatch_record 0 8 0
              = Next 8 True [Heading 0, Report array_mismatch_report]"
    by (simp add: stat_eval array_mismatch_record_def name_4003 array_mismatch_report_def)
  have s2: "stat_step example_catalog array_mismatch_record (0 + 8) (size_t_sub 8 8)
              (if True then (0 + 1) mod 2 ^ 32 else 0) = Stop Exhausted"
    by (simp add: stat_step_def size_t_sub_def)
  have "ocp_print_telemetry_statistics example_catalog array_mismatch_record 0 8
       = ([(8, [Heading 0, Report array_mismatch_report])], Exhausted)"
    unfolding ocp_print_telemetry_statistics_def
    by (simp only: statistics_walk_Next [OF s1] statistics_walk_Stop [OF s2]
        prepend_record_def fst_conv snd_conv)
  then show ?thesis
    by (simp add: array_mismatch_record_def rd_u8_def rd_le16_def rd_def
        sg_get_unaligned_le16_def word_cat_eq)
qed

lemma high_nibble: "drop_bit 4 (x :: u8) AND 0xf = drop_bit 4 x"
proof (rule bit_word_eqI)
  fix n :: nat
  assume "n < LENGTH(8)"
  then have "n \<in> {0, 1, 2, 3, 4, 5, 6, 7}" by auto
  then show "bit (drop_bit 4 x AND 0xf) n = bit (drop_bit 4 x) n"
    by (auto simp: bit_simps dest: bit_imp_le_length)
qed

lemma ocp_get_stat_type_None: "ocp_get_stat_type info_0 = None \<longleftrightarrow> drop_bit 4 info_0 > 2"
  by (simp add: ocp_get_stat_type_def high_nibble Let_def)

lemma ocp_get_data_type_None: "ocp_get_data_type info_2 = None \<longleftrightarrow> info_2 AND 0xf > 4"
  by (simp add: ocp_get_data_type_def Let_def)

lemma ocp_print_stat_desc_malformed:
  assumes "rd_u8 mem (sp + 2) = Some info_0" and "rd_u8 mem (sp + 4) = Some info_2"
    and "drop_bit 4 info_0 > 2 \<or> info_2 AND 0xf > 4"
  shows "ocp_print_stat_desc string_def mem sp =
           Some (False, [Diagnostic (if drop_bit 4 info_0 > 2 then Stat_type_not_supported
                                      else Data_type_not_supported)])"
proof (cases "drop_bit 4 info_0 > 2")
  case True
  then have "ocp_get_stat_type info_0 = None"
    by (simp add: ocp_get_stat_type_None)
  then show ?thesis
    using True assms(1) by (simp add: ocp_print_stat_desc_def)
next
  case False
  then obtain t where t: "ocp_get_stat_type info_0 = Some t"
    using ocp_get_stat_type_None [of info_0] by (cases "ocp_get_stat_type info_0") auto
  from False assms(3) have "ocp_get_data_type info_2 = None"
    by (simp add: ocp_get_data_type_None)
  then show ?thesis
    using False t assms(1,2) by (simp add: ocp_print_stat_desc_def)
qed

lemma ocp_print_stat_desc_printed:
  assumes "rd_u8 mem (sp + 2) = Some info_0" and "rd_u8 mem (sp + 4) = Some info_2"
    and "ocp_print_stat_desc string_def mem sp = Some (printed, items)"
  shows "printed \<longleftrightarrow> \<not> (drop_bit 4 info_0 > 2 \<or> info_2 AND 0xf > 4)"
proof (cases "drop_bit 4 info_0 > 2 \<or> info_2 AND 0xf > 4")
  case True
  then show ?thesis
    using ocp_print_stat_desc_malformed [OF assms(1,2) True, of string_def] assms(3) by simp
next
  case False
  then obtain t d where "ocp_get_stat_type info_0 = Some t" "ocp_get_data_type info_2 = Some d"
    using ocp_get_stat_type_None [of info_0] ocp_get_data_type_None [of info_2]
    by (cases "ocp_get_stat_type info_0"; cases "ocp_get_data_type info_2") auto
  then show ?thesis
    using False assms by (auto simp: ocp_print_stat_desc_def)
qed


definition malformed_scenario :: "u8 list" where
  "malformed_scenario =
     power_on_hours_record @
     [0x04, 0x20, 0x30, 0x00, 0x02, 0x00, 0x01, 0x00, 0xFF, 0xFF, 0xFF, 0xFF] @
     [0x04, 0x20, 0x00, 0x00, 0x02, 0x00, 0x01, 0x00, 0x07, 0x00, 0x00, 0x00] @
     [0x00, 0x00, 0x00, 0x00]"

definition power_cycle_report :: stat_report where
  "power_cycle_report =
     \<lparr>report_ID = ''Power-on Cycle Count'', report_statistics_id = 0x2004,
      report_statistic_type = 0, report_behavior_type = 0, report_unit = (0, ''N/A''),
      report_host_hint_type = 0, report_data_type = 2, report_data_size = 1,
      report_data = Single_data (Uint_value 7)\<rparr>"

lemma name_2004: "ocp_stat_id_to_str sd 0x2004 OCP_STR_BUF_SIZE = Some ''Power-on Cycle Count''"
  by (simp add: ocp_stat_id_to_str_cases ocp_builtin_stat_str_def)

text \<open>Reads of values that lie inside the buffer succeed.\<close>

lemma size_t_add_no_wrap: "a + b < 2 ^ 64 \<Longrightarrow> size_t_add a b = a + b"
  by (simp add: size_t_add_def)

lemma size_t_add_wrapped:
  assumes "1 \<le> k" and "k \<le> data" and "data < 2 ^ 64"
  shows "size_t_add data (2 ^ 64 - k) = data - k"
proof -
  have "data + (2 ^ 64 - k) = (data - k) + 2 ^ 64"
    using assms by simp
  then have "size_t_add data (2 ^ 64 - k) = (data - k) mod 2 ^ 64"
    unfolding size_t_add_def by (simp only: mod_add_self2)
  then show ?thesis
    using assms(3) by simp
qed

lemma size_t_sub_one: "0 < i \<Longrightarrow> i < 2 ^ 64 \<Longrightarrow> size_t_sub i 1 = i - 1"
  by (simp add: size_t_sub_def mod_if)

lemma size_t_sub_zero_one: "size_t_sub 0 1 = 2 ^ 64 - 1"
  by (simp add: size_t_sub_def)

lemma ascii_scan_down:
  assumes "length mem < 2 ^ 64"
  shows "0 < i \<Longrightarrow> data + i < length mem \<Longrightarrow> \<exists>j. ascii_scan mem data i = Some j"
proof (induction i)
  case 0
  then show ?case by simp
next
  case (Suc n)
  have a: "size_t_add data (Suc n) = data + Suc n"
    using Suc.prems assms by (simp add: size_t_add_no_wrap)
  have s: "size_t_sub (Suc n) 1 = n"
    using Suc.prems assms size_t_sub_one [of "Suc n"] by simp
  show ?case
  proof (cases "mem ! (data + Suc n) \<noteq> 0x20")
    case True
    then show ?thesis
      using Suc.prems a by (subst ascii_scan.simps) simp
  next
    case False
    show ?thesis
    proof (cases "0 < n")
      case True
      then obtain j where "ascii_scan mem data n = Some j"
        using Suc.IH Suc.prems by auto
      then show ?thesis
        using Suc.prems a s False True by (subst ascii_scan.simps) simp
    next
      case n0: False
      then show ?thesis
        using Suc.prems a s False by (subst ascii_scan.simps) simp
    qed
  qed
qed

lemma ascii_scan_back:
  assumes "length mem < 2 ^ 64" and "data \<le> length mem" and "p < data" and "mem ! p \<noteq> 0x20"
  shows "1 \<le> k \<Longrightarrow> k \<le> data - p \<Longrightarrow> \<exists>j. ascii_scan mem data (2 ^ 64 - k) = Some j"
proof (induction "data - p - k" arbitrary: k)
  case 0
  then have k: "data - k = p" using assms(3) by simp
  have a: "size_t_add data (2 ^ 64 - k) = p"
    using size_t_add_wrapped [of k data] 0 assms k by simp
  show ?case
    using assms a by (subst ascii_scan.simps) simp
next
  case (Suc d)
  have a: "size_t_add data (2 ^ 64 - k) = data - k"
    using size_t_add_wrapped [of k data] Suc.prems assms by simp
  have lt: "data - k < length mem"
    using Suc.prems assms by simp
  have k64: "k + 1 < 2 ^ 64"
    using Suc.prems Suc.hyps(2) assms by simp
  have s: "size_t_sub (2 ^ 64 - k) 1 = 2 ^ 64 - (k + 1)"
    using size_t_sub_one [of "2 ^ 64 - k"] k64 Suc.prems by simp
  have pos: "0 < (2 :: nat) ^ 64 - (k + 1)"
    using k64 by simp
  have d: "d = data - p - (k + 1)" and k1: "1 \<le> k + 1" and kp: "k + 1 \<le> data - p"
    using Suc.hyps(2) by arith+
  obtain j where j: "ascii_scan mem data (2 ^ 64 - (k + 1)) = Some j"
    using Suc.hyps(1) [OF d k1 kp] by blast
  show ?case
    using a lt s pos j by (subst ascii_scan.simps) simp
qed


lemma ocp_ascii_to_c_str_in_buffer:
  assumes "length mem < 2 ^ 64" and "0 < sz" and "data + sz \<le> length mem"
    and "sz = 1 \<longrightarrow> (\<exists>p<data. mem ! p \<noteq> 0x20)" and sz64: "sz + 1 < 2 ^ 64"
  shows "\<exists>bytes. ocp_ascii_to_c_str mem data sz (size_t_add sz 1) = Some bytes"
proof -
  have i0: "size_t_sub sz 1 = sz - 1"
    using size_t_sub_one [of sz] assms(2) sz64 by simp
  have len: "size_t_sub (size_t_add sz 1) 1 = sz"
    using size_t_sub_one [of "sz + 1"] sz64 by (simp add: size_t_add_no_wrap)
  have "\<exists>j. ascii_scan mem data (sz - 1) = Some j"
  proof (cases "0 < sz - 1")
    case True
    then show ?thesis
      using ascii_scan_down [OF assms(1), of "sz - 1" data] assms(3) by simp
  next
    case False
    then have one: "sz = 1" using assms(2) by simp
    then obtain p where p: "p < data" "mem ! p \<noteq> 0x20"
      using assms(4) by blast
    have a: "size_t_add data 0 = data"
      using assms(1,3) by (simp add: size_t_add_no_wrap)
    have lt: "data < length mem"
      using assms(3) one by simp
    have pos: "0 < (2 :: nat) ^ 64 - 1"
      by simp
    have dl: "data \<le> length mem" and k1: "(1 :: nat) \<le> 1" and kp: "1 \<le> data - p"
      using lt p(1) by arith+
    obtain j where j: "ascii_scan mem data (2 ^ 64 - 1) = Some j"
      using ascii_scan_back [OF assms(1) dl p k1 kp] by blast
    have "\<exists>j. ascii_scan mem data 0 = Some j"
      using a lt j by (subst ascii_scan.simps) (simp add: size_t_sub_def)
    then show ?thesis using one by simp
  qed
  then obtain j where j: "ascii_scan mem data (sz - 1) = Some j"
    by blast
  have "\<exists>bytes. rd mem data (min j sz) = Some bytes"
    using assms(3) by (simp add: rd_def)
  then show ?thesis
    unfolding ocp_ascii_to_c_str_def i0 len j by auto
qed

lemma ocp_print_stat_value_in_buffer:
  assumes "length mem < 2 ^ 64" and "0 < sz" and "data + sz \<le> length mem"
    and "sz = 1 \<longrightarrow> (\<exists>p<data. mem ! p \<noteq> 0x20)" and "sz + 1 < 2 ^ 64"
  shows "\<exists>v. ocp_print_stat_value type mem data sz = Some v"
proof (cases type)
  case OCP_DATA_TYPE_ASCII
  then show ?thesis
    using ocp_ascii_to_c_str_in_buffer [OF assms] by (auto simp: ocp_print_stat_value_def)
qed (use assms(2,3) in \<open>auto simp: ocp_print_stat_value_def ocp_get_int_val_def
      ocp_get_uint_val_def hex_dump_line_def rd_u8_def rd_le16_def rd_le32_def rd_le64_def
      rd_def\<close>)

lemma array_elements_in_buffer:
  assumes "\<forall>k<n. \<exists>v. ocp_print_stat_value type mem (data + k * width) width = Some v"
  shows "\<exists>vs. array_elements type mem data width n = Some vs \<and> length vs = n
           \<and> (\<forall>k<n. ocp_print_stat_value type mem (data + k * width) width = Some (vs ! k))"
  using assms
proof (induction n arbitrary: data)
  case 0
  then show ?case by simp
next
  case (Suc n)
  from Suc.prems obtain v where v: "ocp_print_stat_value type mem data width = Some v"
    by fastforce
  have "\<forall>k<n. \<exists>v. ocp_print_stat_value type mem (data + width + k * width) width = Some v"
  proof (intro allI impI)
    fix k assume "k < n"
    then have "\<exists>v. ocp_print_stat_value type mem (data + Suc k * width) width = Some v"
      using Suc.prems by blast
    then show "\<exists>v. ocp_print_stat_value type mem (data + width + k * width) width = Some v"
      by (simp add: add.assoc)
  qed
  from Suc.IH [OF this] obtain vs where vs:
    "array_elements type mem (data + width) width n = Some vs" "length vs = n"
    "\<forall>k<n. ocp_print_stat_value type mem (data + width + k * width) width = Some (vs ! k)"
    by blast
  have "\<forall>k<Suc n. ocp_print_stat_value type mem (data + k * width) width = Some ((v # vs) ! k)"
  proof (intro allI impI)
    fix k assume k: "k < Suc n"
    show "ocp_print_stat_value type mem (data + k * width) width = Some ((v # vs) ! k)"
    proof (cases k)
      case 0
      then show ?thesis using v by simp
    next
      case (Suc m)
      then have "m < n" using k by simp
      then show ?thesis
        using vs(3) Suc by (simp add: add.assoc)
    qed
  qed
  then show ?case
    using v vs(1,2) by simp
qed


lemma array_descriptor_step:
  assumes "rd_le16 mem (4 * pos) = Some statistics_id"
    and "rd_u8 mem (4 * pos + 2) = Some info_0"
    and "rd_u8 mem (4 * pos + 4) = Some info_2"
    and "rd_le16 mem (4 * pos + 6) = Some statistic_data_size"
    and "dwords \<noteq> 0" and "statistics_id \<noteq> 0"
    and "ocp_get_stat_type info_0 = Some OCP_STAT_TYPE_ARRAY"
    and "ocp_get_data_type info_2 = Some data_type"
    and "rd_u8 mem (4 * pos + 8) = Some element_size"
    and "rd_le16 mem (4 * pos + 10) = Some number_of_elements"
    and "4 * pos + 12 + (unat number_of_elements + 1) * (unat element_size + 1) \<le> length mem"
    and "length mem < 2 ^ 64"
    and "ocp_stat_id_to_str string_def statistics_id OCP_STR_BUF_SIZE = Some name"
  shows "\<exists>r vs. stat_step string_def mem pos dwords idx
                   = Next (2 + unat statistic_data_size) True [Heading idx, Report r]
           \<and> report_data_size r = statistic_data_size
           \<and> report_data r = Array_data vs
           \<and> length vs = unat number_of_elements + 1
           \<and> (\<forall>k < unat number_of_elements + 1.
                 ocp_print_stat_value data_type mem
                   (4 * pos + 12 + k * (unat element_size + 1)) (unat element_size + 1)
                 = Some (vs ! k))"
proof -
  define w where "w = unat element_size + 1"
  define n where "n = unat number_of_elements + 1"
  have w: "0 < w" "w + 1 < 2 ^ 64"
    using unat_u8_lt [of element_size] by (simp_all add: w_def)
  have es: "mem ! (4 * pos + 8) = element_size"
    using assms(9) by (simp add: rd_u8_def split: if_splits)
  have i1: "rd_u8 mem (4 * pos + 3) = Some (mem ! (4 * pos + 3))"
    using assms(3) by (simp add: rd_u8_def split: if_splits)
  have "\<forall>k<n. \<exists>v. ocp_print_stat_value data_type mem (4 * pos + 12 + k * w) w = Some v"
  proof (intro allI impI)
    fix k assume k: "k < n"
    then have "(k + 1) * w \<le> n * w"
      by (intro mult_le_mono1) simp
    then have inb: "4 * pos + 12 + k * w + w \<le> length mem"
      using assms(11) by (simp add: w_def n_def)
    have sp: "w = 1 \<longrightarrow> (\<exists>p<4 * pos + 12 + k * w. mem ! p \<noteq> 0x20)"
    proof
      assume "w = 1"
      then have "element_size = 0"
        by (simp add: w_def unat_eq_0)
      then have "mem ! (4 * pos + 8) \<noteq> 0x20"
        using es by simp
      moreover have "4 * pos + 8 < 4 * pos + 12 + k * w"
        by simp
      ultimately show "\<exists>p<4 * pos + 12 + k * w. mem ! p \<noteq> 0x20"
        by blast
    qed
    show "\<exists>v. ocp_print_stat_value data_type mem (4 * pos + 12 + k * w) w = Some v"
      by (rule ocp_print_stat_value_in_buffer [OF assms(12) w(1) inb sp w(2)])
  qed
  from array_elements_in_buffer [OF this] obtain vs where vs:
    "array_elements data_type mem (4 * pos + 12) w n = Some vs" "length vs = n"
    "\<forall>k<n. ocp_print_stat_value data_type mem (4 * pos + 12 + k * w) w = Some (vs ! k)"
    by blast
  have vs': "array_elements data_type mem (4 * pos + 12) (unat element_size + 1)
               (unat number_of_elements + 1) = Some vs"
    using vs(1) unfolding w_def n_def .
  have "stat_desc_body string_def mem (4 * pos) OCP_STAT_TYPE_ARRAY data_type =
          Some \<lparr>report_ID = c_string_of name,
                report_statistics_id = statistics_id,
                report_statistic_type = drop_bit 4 info_0,
                report_behavior_type = info_0 AND 0xf,
                report_unit =
                  (mem ! (4 * pos + 3),
                   if mem ! (4 * pos + 3) > OCP_UNIT_TYPE_MAX then ''Reserved''
                   else ocp_stat_data_unit_str ! unat (mem ! (4 * pos + 3))),
                report_host_hint_type = drop_bit 4 info_2 AND 0x3,
                report_data_type = info_2 AND 0xf,
                report_data_size = statistic_data_size,
                report_data = Array_data vs\<rparr>"
    unfolding stat_desc_body_def
    by (simp only: assms(1-4,9,10,13) i1 vs' Option.bind.simps ocp_stat_type.case)
  then have "\<exists>r. stat_desc_body string_def mem (4 * pos) OCP_STAT_TYPE_ARRAY data_type = Some r
          \<and> report_data_size r = statistic_data_size \<and> report_data r = Array_data vs"
    by simp
  then obtain r where r:
    "stat_desc_body string_def mem (4 * pos) OCP_STAT_TYPE_ARRAY data_type = Some r"
    "report_data_size r = statistic_data_size" "report_data r = Array_data vs"
    by blast
  have "stat_step string_def mem pos dwords idx
          = Next (2 + unat statistic_data_size) True [Heading idx, Report r]"
    using assms(1-8) r(1) by (simp add: stat_step_def ocp_print_stat_desc_def)
  then show ?thesis
    using r(2,3) vs(2,3) unfolding w_def n_def by blast
qed

text \<open>
  A wrapped index in the ASCII case of \<^verbatim>\<open>ocp_print_stat_value\<close>: a value of no bytes,
  and a one-byte value that is a space, make the loop read the bytes in front of the
  value; a string is printed.
\<close>

lemma ascii_value_wrapped_index:
  "ocp_print_stat_value OCP_DATA_TYPE_ASCII [0x03, 0x20, 0x00, 0x00, 0x04, 0x00, 0x00, 0x00] 8 0
     = Some (Ascii_value [])"
  "ocp_print_stat_value OCP_DATA_TYPE_ASCII [0x41, 0x20] 1 1 = Some (Ascii_value [])"
  "ocp_print_stat_value OCP_DATA_TYPE_ASCII [0x41, 0x20, 0x20] 2 1 = Some (Ascii_value '' '')"
  by (simp_all add: ocp_print_stat_value_def ocp_ascii_to_c_str_def ascii_scan.simps
      size_t_sub_def size_t_add_def rd_def c_str_def c_string_of_def NUL_def char_of_def bit_0)

text \<open>
  Claim C4, amended. A descriptor whose statistic type field (high nibble of info byte 0)
  exceeds 2, or whose data type field (low nibble of info byte 2) exceeds 4, is skipped:
  the pass reports the heading and a diagnostic and no record, keeps the descriptor
  index, and the walk goes on behind the declared length of \<open>2 + statistic_data_size\<close>
  dwords, so that the records before and behind it are reported. These two fields alone
  decide whether a descriptor is reported; the extent of an ARRAY body is not compared
  with the declared size. An ARRAY descriptor with supported type fields whose
  \<open>number_of_elements + 1\<close> elements of \<open>element_size + 1\<close> bytes lie inside the buffer is
  reported without a diagnostic, with exactly these elements, whatever size its header
  declares; the pass consumes the declared \<open>2 + statistic_data_size\<close> dwords.
\<close>

theorem malformed_descriptor_skipped:
  assumes "rd_le16 mem (4 * pos) = Some statistics_id"
    and "rd_u8 mem (4 * pos + 2) = Some info_0"
    and "rd_u8 mem (4 * pos + 4) = Some info_2"
    and "rd_le16 mem (4 * pos + 6) = Some statistic_data_size"
    and "dwords \<noteq> 0" and "statistics_id \<noteq> 0"
  shows "(drop_bit 4 info_0 > 2 \<or> info_2 AND 0xf > 4 \<longrightarrow>
           statistics_walk string_def mem pos dwords idx =
             prepend_record
               (2 + unat statistic_data_size,
                [Heading idx,
                 Diagnostic (if drop_bit 4 info_0 > 2 then Stat_type_not_supported
                             else Data_type_not_supported)])
               (statistics_walk string_def mem (pos + (2 + unat statistic_data_size))
                  (size_t_sub dwords (2 + unat statistic_data_size)) idx))
       \<and> (\<forall>printed items.
             ocp_print_stat_desc string_def mem (4 * pos) = Some (printed, items) \<longrightarrow>
               (printed \<longleftrightarrow> \<not> (drop_bit 4 info_0 > 2 \<or> info_2 AND 0xf > 4)))
       \<and> (ocp_get_stat_type info_0 = Some OCP_STAT_TYPE_ARRAY
            \<and> ocp_get_data_type info_2 = Some data_type
            \<and> rd_u8 mem (4 * pos + 8) = Some element_size
            \<and> rd_le16 mem (4 * pos + 10) = Some number_of_elements
            \<and> 4 * pos + 12 + (unat number_of_elements + 1) * (unat element_size + 1)
                 \<le> length mem
            \<and> length mem < 2 ^ 64
            \<and> ocp_stat_id_to_str string_def statistics_id OCP_STR_BUF_SIZE = Some name \<longrightarrow>
          (\<exists>r vs. stat_step string_def mem pos dwords idx
                     = Next (2 + unat statistic_data_size) True [Heading idx, Report r]
             \<and> report_data_size r = statistic_data_size
             \<and> report_data r = Array_data vs
             \<and> length vs = unat number_of_elements + 1
             \<and> (\<forall>k < unat number_of_elements + 1.
                   ocp_print_stat_value data_type mem
                     (4 * pos + 12 + k * (unat element_size + 1)) (unat element_size + 1)
                   = Some (vs ! k))))"
proof (intro conjI impI allI)
  assume bad: "drop_bit 4 info_0 > 2 \<or> info_2 AND 0xf > 4"
  have "stat_step string_def mem pos dwords idx =
          Next (2 + unat statistic_data_size) False
            [Heading idx,
             Diagnostic (if drop_bit 4 info_0 > 2 then Stat_type_not_supported
                         else Data_type_not_supported)]"
    using assms ocp_print_stat_desc_malformed [OF assms(2,3) bad, of string_def]
    by (simp add: stat_step_def)
  from statistics_walk_Next [OF this]
  show "statistics_walk string_def mem pos dwords idx =
             prepend_record
               (2 + unat statistic_data_size,
                [Heading idx,
                 Diagnostic (if drop_bit 4 info_0 > 2 then Stat_type_not_supported
                             else Data_type_not_supported)])
               (statistics_walk string_def mem (pos + (2 + unat statistic_data_size))
                  (size_t_sub dwords (2 + unat statistic_data_size)) idx)"
    by simp
next
  fix printed items
  assume "ocp_print_stat_desc string_def mem (4 * pos) = Some (printed, items)"
  with assms(2,3) show "printed \<longleftrightarrow> \<not> (drop_bit 4 info_0 > 2 \<or> info_2 AND 0xf > 4)"
    by (rule ocp_print_stat_desc_printed)
next
  assume a: "ocp_get_stat_type info_0 = Some OCP_STAT_TYPE_ARRAY
            \<and> ocp_get_data_type info_2 = Some data_type
            \<and> rd_u8 mem (4 * pos + 8) = Some element_size
            \<and> rd_le16 mem (4 * pos + 10) = Some number_of_elements
            \<and> 4 * pos + 12 + (unat number_of_elements + 1) * (unat element_size + 1)
                 \<le> length mem
            \<and> length mem < 2 ^ 64
            \<and> ocp_stat_id_to_str string_def statistics_id OCP_STR_BUF_SIZE = Some name"
  show "\<exists>r vs. stat_step string_def mem pos dwords idx
                     = Next (2 + unat statistic_data_size) True [Heading idx, Report r]
             \<and> report_data_size r = statistic_data_size
             \<and> report_data r = Array_data vs
             \<and> length vs = unat number_of_elements + 1
             \<and> (\<forall>k < unat number_of_elements + 1.
                   ocp_print_stat_value data_type mem
                     (4 * pos + 12 + k * (unat element_size + 1)) (unat element_size + 1)
                   = Some (vs ! k))"
    by (rule array_descriptor_step [OF assms]) (use a in blast)+
qed

theorem malformed_descriptor_skipped_witness:
  "rd_le16 malformed_scenario (4 * 3) = Some 0x2004
   \<and> rd_u8 malformed_scenario (4 * 3 + 2) = Some 0x30
   \<and> rd_u8 malformed_scenario (4 * 3 + 4) = Some 0x02
   \<and> rd_le16 malformed_scenario (4 * 3 + 6) = Some 1
   \<and> drop_bit 4 (0x30 :: u8) > 2
   \<and> ocp_print_telemetry_statistics example_catalog malformed_scenario 0 10
       = ([(3, [Heading 0, Report power_on_hours_report]),
           (3, [Heading 1, Diagnostic Stat_type_not_supported]),
           (3, [Heading 1, Report power_cycle_report])], End_of_list)
   \<and> rd_le16 array_mismatch_record (4 * 0) = Some 0x4003
   \<and> rd_u8 array_mismatch_record (4 * 0 + 2) = Some 0x10
   \<and> rd_u8 array_mismatch_record (4 * 0 + 4) = Some 0x02
   \<and> rd_le16 array_mismatch_record (4 * 0 + 6) = Some 6
   \<and> ocp_get_stat_type 0x10 = Some OCP_STAT_TYPE_ARRAY
   \<and> ocp_get_data_type 0x02 = Some OCP_DATA_TYPE_UINT
   \<and> rd_u8 array_mismatch_record (4 * 0 + 8) = Some 3
   \<and> rd_le16 array_mismatch_record (4 * 0 + 10) = Some 0
   \<and> 4 * 0 + 12 + (unat (0 :: u16) + 1) * (unat (3 :: u8) + 1) \<le> length array_mismatch_record
   \<and> length array_mismatch_record < 2 ^ 64
   \<and> ocp_stat_id_to_str example_catalog 0x4003 OCP_STR_BUF_SIZE = Some ''Erase Count''
   \<and> (\<exists>r vs. stat_step example_catalog array_mismatch_record 0 8 0
                  = Next (2 + unat (6 :: u16)) True [Heading 0, Report r]
          \<and> report_data_size r = 6
          \<and> report_data r = Array_data vs
          \<and> length vs = unat (0 :: u16) + 1
          \<and> (\<forall>k < unat (0 :: u16) + 1.
                ocp_print_stat_value OCP_DATA_TYPE_UINT array_mismatch_record
                  (4 * 0 + 12 + k * (unat (3 :: u8) + 1)) (unat (3 :: u8) + 1)
                = Some (vs ! k)))"
proof -
  have ha: "rd_le16 array_mismatch_record (4 * 0) = Some 0x4003"
    "rd_u8 array_mismatch_record (4 * 0 + 2) = Some 0x10"
    "rd_u8 array_mismatch_record (4 * 0 + 4) = Some 0x02"
    "rd_le16 array_mismatch_record (4 * 0 + 6) = Some 6"
    by (simp_all add: array_mismatch_record_def rd_u8_def rd_le16_def rd_def
        sg_get_unaligned_le16_def word_cat_eq)
  have hb: "ocp_get_stat_type 0x10 = Some OCP_STAT_TYPE_ARRAY"
    "ocp_get_data_type 0x02 = Some OCP_DATA_TYPE_UINT"
    by (simp_all add: ocp_get_stat_type_def ocp_get_data_type_def drop_bit_eq_div)
  have hc: "rd_u8 array_mismatch_record (4 * 0 + 8) = Some 3"
    "rd_le16 array_mismatch_record (4 * 0 + 10) = Some 0"
    by (simp_all add: array_mismatch_record_def rd_u8_def rd_le16_def rd_def
        sg_get_unaligned_le16_def word_cat_eq)
  have hd: "4 * 0 + 12 + (unat (0 :: u16) + 1) * (unat (3 :: u8) + 1)
              \<le> length array_mismatch_record"
    "length array_mismatch_record < 2 ^ 64"
    by (simp_all add: array_mismatch_record_def)
  have he: "ocp_stat_id_to_str example_catalog 0x4003 OCP_STR_BUF_SIZE = Some ''Erase Count''"
    by (rule name_4003)
  have n8: "(8 :: nat) \<noteq> 0" and nida: "(0x4003 :: u16) \<noteq> 0"
    by simp_all
  have arr: "\<exists>r vs. stat_step example_catalog array_mismatch_record 0 8 0
                  = Next (2 + unat (6 :: u16)) True [Heading 0, Report r]
          \<and> report_data_size r = 6
          \<and> report_data r = Array_data vs
          \<and> length vs = unat (0 :: u16) + 1
          \<and> (\<forall>k < unat (0 :: u16) + 1.
                ocp_print_stat_value OCP_DATA_TYPE_UINT array_mismatch_record
                  (4 * 0 + 12 + k * (unat (3 :: u8) + 1)) (unat (3 :: u8) + 1)
                = Some (vs ! k))"
    using malformed_descriptor_skipped [OF ha n8 nida, where string_def = example_catalog
        and idx = 0 and data_type = OCP_DATA_TYPE_UINT and element_size = 3
        and number_of_elements = 0 and name = "''Erase Count''"] hb hc hd he
    by blast
  have h: "rd_le16 malformed_scenario (4 * 3) = Some 0x2004"
    "rd_u8 malformed_scenario (4 * 3 + 2) = Some 0x30"
    "rd_u8 malformed_scenario (4 * 3 + 4) = Some 0x02"
    "rd_le16 malformed_scenario (4 * 3 + 6) = Some 1"
    by (simp_all add: malformed_scenario_def power_on_hours_record_def rd_u8_def rd_le16_def
        rd_def sg_get_unaligned_le16_def word_cat_eq)
  have d: "drop_bit 4 (0x30 :: u8) > 2"
    by (simp add: drop_bit_eq_div)
  have s1: "stat_step example_catalog malformed_scenario 0 10 0
              = Next 3 True [Heading 0, Report power_on_hours_report]"
    unfolding malformed_scenario_def by (rule step_power_on_hours) simp
  have s3: "stat_step example_catalog malformed_scenario 6 4 1
              = Next 3 True [Heading 1, Report power_cycle_report]"
    by (simp add: stat_eval malformed_scenario_def power_on_hours_record_def name_2004
        power_cycle_report_def)
  have s4: "stat_step example_catalog malformed_scenario 9 1 2 = Stop End_of_list"
    by (simp add: stat_eval malformed_scenario_def power_on_hours_record_def)
  have w3: "statistics_walk example_catalog malformed_scenario 6 4 1 =
              ([(3, [Heading 1, Report power_cycle_report])], End_of_list)"
    by (rule statistics_walk_record [OF s3 _ _ _ statistics_walk_Stop [OF s4]])
      (simp_all add: size_t_sub_def)
  have a: "statistics_walk example_catalog malformed_scenario (3 + (2 + unat (1 :: u16)))
             (size_t_sub 7 (2 + unat (1 :: u16))) 1
           = statistics_walk example_catalog malformed_scenario 6 4 1"
    by (simp add: size_t_sub_def)
  have "statistics_walk example_catalog malformed_scenario 3 7 1 =
          prepend_record
            (2 + unat (1 :: u16),
             [Heading 1,
              Diagnostic (if drop_bit 4 (0x30 :: u8) > 2 then Stat_type_not_supported
                          else Data_type_not_supported)])
            (statistics_walk example_catalog malformed_scenario (3 + (2 + unat (1 :: u16)))
               (size_t_sub 7 (2 + unat (1 :: u16))) 1)"
  proof -
    have n7: "(7 :: nat) \<noteq> 0" and nid: "(0x2004 :: u16) \<noteq> 0"
      by simp_all
    from malformed_descriptor_skipped [OF h n7 nid, of example_catalog 1] d
    show ?thesis by blast
  qed
  moreover have u: "2 + unat (1 :: u16) = 3"
    by simp
  moreover have c: "(if drop_bit 4 (0x30 :: u8) > 2 then Stat_type_not_supported
                     else Data_type_not_supported) = Stat_type_not_supported"
    using d by simp
  ultimately have w2: "statistics_walk example_catalog malformed_scenario 3 7 1 =
              ([(3, [Heading 1, Diagnostic Stat_type_not_supported]),
                (3, [Heading 1, Report power_cycle_report])], End_of_list)"
    unfolding a by (simp only: w3 prepend_record_def fst_conv snd_conv)
  have "ocp_print_telemetry_statistics example_catalog malformed_scenario 0 10
       = ([(3, [Heading 0, Report power_on_hours_report]),
           (3, [Heading 1, Diagnostic Stat_type_not_supported]),
           (3, [Heading 1, Report power_cycle_report])], End_of_list)"
    unfolding ocp_print_telemetry_statistics_def
    by (rule statistics_walk_record [OF s1 _ _ _ w2]) (simp_all add: size_t_sub_def)
  with h d ha hb hc hd he arr show ?thesis by (intro conjI)
qed

section \<open>Event names\<close>

text \<open>The tables of built-in event names (smartmon/ocptelemetry.h).\<close>

definition ocp_timestamp_event_id_str :: "string list" where
  "ocp_timestamp_event_id_str =
     [''Host Initiated Timestamp'',
      ''Firmware Initiated Timestamp'',
      ''Obsolete ID (0x02)'']"

definition ocp_reset_event_id_str :: "string list" where
  "ocp_reset_event_id_str =
     [''Main Power Cycle'',
      ''SATA - SRST'',
      ''SATA - COMRESET'',
      ''SAS - Hard Reset'',
      ''SAS - COMINIT'',
      ''SAS - DWORD Synchronization Loss'',
      ''SAS - SPL Packet Synchronization Loss'',
      ''SAS - Receive Identify Timeout Timer Expired'',
      ''SAS - Hot-plug Timeout'']"

definition ocp_ssd_boot_seq_event_id_str :: "string list" where
  "ocp_ssd_boot_seq_event_id_str =
     [''Main Firmware Boot Complete'',
      ''FTL Load From NVM Complete'',
      ''FTL Rebuild Started'',
      ''FTL Ready'']"

definition ocp_hdd_boot_seq_event_id_str :: "string list" where
  "ocp_hdd_boot_seq_event_id_str =
     [''Main Firmware Boot Complete'',
      ''Spin-up Start'',
      ''Spin-up Complete'',
      ''Device Ready'']"

definition ocp_fw_assert_event_id_str :: "string list" where
  "ocp_fw_assert_event_id_str =
     [''Assert in SAS, SCSI, SATA or ATA Processing Code'',
      ''Assert in Media Code'',
      ''Assert in Security Code'',
      ''Assert in Background Services Code'',
      ''FTL Rebuild Failed'',
      ''FTL Data Mismatch'',
      ''Assert in Bad Block Relocation Code'',
      ''Assert in Other Code'']"

definition ocp_temperature_event_id_str :: "string list" where
  "ocp_temperature_event_id_str =
     [''Temperature decrease ceased thermal throttling'',
      ''Temperature increase commenced thermal throttling'',
      ''Temperature increase caused thermal shutdown'']"

definition ocp_media_event_id_str :: "string list" where
  "ocp_media_event_id_str =
     [''XOR (or equivalent) Recovery Invoked'',
      ''Uncorrectable Media Error'',
      ''Block Marked Bad Due To SSD Media Program Error'',
      ''Block Marked Bad Due To SSD Media Erase Error'',
      ''Block Marked Bad Due To Read Error'',
      ''SSD Media Plane Failure'',
      ''SSD Media Die Failure'',
      ''HDD Head or Surface Failure'']"

definition ocp_media_wear_event_id_str :: "string list" where
  "ocp_media_wear_event_id_str =
     [''Media Wear'']"

definition ocp_virtual_fifo_event_id_str :: "string list" where
  "ocp_virtual_fifo_event_id_str =
     [''Virtual FIFO Start'',
      ''Virtual FIFO End'']"

definition ocp_sata_phy_link_event_id_str :: "string list" where
  "ocp_sata_phy_link_event_id_str =
     [''DR_Reset Entered due to Unexpected COMRESET'',
      ''DR_Reset Entered due to Phy Signal Not Detected'',
      ''Device Dropped Link while Host Link is Up'',
      ''DR_Ready entered at Gen 3'',
      ''DR_Ready entered at Gen 2'',
      ''DR_Ready entered at Gen 1'',
      ''DR_Partial Entered'',
      ''DR_Partial Exited'',
      ''DR_Reduce_Speed Entered'',
      ''DR_Error Entered'',
      ''Transmitting HOLD'',
      ''Receiving HOLD'',
      ''PMNAK Received'',
      ''PMNAK Transmitted'',
      ''R_ERR Received'',
      ''R_ERR Transmitted'',
      ''Set Device Bits Transmitted with Error Bit Set'']"

definition ocp_sata_transport_event_id_str :: "string list" where
  "ocp_sata_transport_event_id_str =
     [''Non-Data FIS Received'',
      ''Non-Data FIS Transmitted'',
      ''Data FIS Received'',
      ''Data FIS Transmitted'']"

definition ocp_sas_phy_link_event_id_str :: "string list" where
  "ocp_sas_phy_link_event_id_str =
     [''Link Up - 1.5 Gbps'',
      ''Link Up - 3.0 Gbps'',
      ''Link Up - 6.0 Gbps'',
      ''Link Up - 12.0 Gbps'',
      ''Link Up - 22.5 Gbps'',
      ''Identify Received (Data)'',
      ''HARD_RESET Received'',
      ''Link Loss'',
      ''DWORD Synchronization Loss'',
      ''SPL Packet Synchronization Loss'',
      ''Identify Receive TImeout'',
      ''BREAK Received'',
      ''BREAK_REPLY Received'']"

definition ocp_sas_transport_event_id_str :: "string list" where
  "ocp_sas_transport_event_id_str =
     [''DATA Frame Received'',
      ''DATA Frame Sent'',
      ''XFER_RDY Frame Sent'',
      ''COMMAND Frame Received'',
      ''RESPONSE Frame Sent'',
      ''TASK Frame Received'',
      ''SSP Frame Received'',
      ''SSP Frame Sent'',
      ''NAK Received'']"

text \<open>
  The functions \<^verbatim>\<open>timestamp_event_id_to_str\<close> to \<^verbatim>\<open>sas_transport_event_id_to_str\<close>
  (ocptelemetryprint.cpp, lines 599-713) have one shape: an id up to the last id of the
  class gives the name from the table of the class, any other id the result \<^verbatim>\<open>false\<close>
  (\<open>None\<close>). The boot sequence class has two tables.
\<close>

definition indexed_event_id_to_str :: "string list \<Rightarrow> u16 \<Rightarrow> u16 \<Rightarrow> nat \<Rightarrow> string option" where
  "indexed_event_id_to_str table max_id event_id buf_size =
     (if event_id \<le> max_id then Some (snprintf_str buf_size (table ! unat event_id)) else None)"

definition boot_seq_event_id_to_str :: "u16 \<Rightarrow> nat \<Rightarrow> string option" where
  "boot_seq_event_id_to_str event_id buf_size =
     (if event_id \<le> 0x3 then
        Some (snprintf_str buf_size (ocp_ssd_boot_seq_event_id_str ! unat event_id))
      else if event_id \<ge> 0x100 \<and> event_id \<le> 0x103 then
        Some (snprintf_str buf_size (ocp_hdd_boot_seq_event_id_str ! unat (event_id - 0x100)))
      else None)"

definition virtual_fifo_event_id_to_str :: "u16 \<Rightarrow> nat \<Rightarrow> string option" where
  "virtual_fifo_event_id_to_str event_id buf_size =
     indexed_event_id_to_str ocp_virtual_fifo_event_id_str 0x1 event_id buf_size"

text \<open>\<^verbatim>\<open>OCP_EVENT_KEY\<close> (smartmon/ocptelemetry.h, line 17), as the \<^verbatim>\<open>uint32_t\<close> key of the
  map.\<close>

definition OCP_EVENT_KEY :: "u8 \<Rightarrow> u8 list \<Rightarrow> u32" where
  "OCP_EVENT_KEY class event_id =
     push_bit 16 (ucast class) OR push_bit 8 (ucast (event_id ! 1)) OR ucast (event_id ! 0)"

text \<open>
  \<^verbatim>\<open>event_id_to_str\<close> (lines 715-780). \<open>class_event_id_to_str\<close> is its \<^verbatim>\<open>switch\<close>
  statement: \<open>Returns_false\<close> for the statistic snapshot class, which leaves the function
  at once, else the outcome \<^verbatim>\<open>success\<close> with the name. The result of the function is
  \<open>Some None\<close> for \<^verbatim>\<open>false\<close>, \<open>Some (Some name)\<close> for \<^verbatim>\<open>true\<close> with the string left in
  the buffer, and \<open>None\<close> for a copy from outside the ASCII blob.
\<close>

datatype switch_result = Returns_false | Success "string option"

definition class_event_id_to_str :: "u8 \<Rightarrow> u16 \<Rightarrow> nat \<Rightarrow> switch_result" where
  "class_event_id_to_str dbg_class event_id buf_size =
     (if dbg_class = 0x01 then
        Success (indexed_event_id_to_str ocp_timestamp_event_id_str 0x2 event_id buf_size)
      else if dbg_class = 0x04 then
        Success (indexed_event_id_to_str ocp_reset_event_id_str 0x8 event_id buf_size)
      else if dbg_class = 0x05 then Success (boot_seq_event_id_to_str event_id buf_size)
      else if dbg_class = 0x06 then
        Success (indexed_event_id_to_str ocp_fw_assert_event_id_str 0x7 event_id buf_size)
      else if dbg_class = 0x07 then
        Success (indexed_event_id_to_str ocp_temperature_event_id_str 0x2 event_id buf_size)
      else if dbg_class = 0x08 then
        Success (indexed_event_id_to_str ocp_media_event_id_str 0x7 event_id buf_size)
      else if dbg_class = 0x09 then
        Success (indexed_event_id_to_str ocp_media_wear_event_id_str 0x0 event_id buf_size)
      else if dbg_class = 0x0A then Returns_false
      else if dbg_class = 0x0B then Success (virtual_fifo_event_id_to_str event_id buf_size)
      else if dbg_class = 0x0C then
        Success (indexed_event_id_to_str ocp_sata_phy_link_event_id_str 0x10 event_id buf_size)
      else if dbg_class = 0x0D then
        Success (indexed_event_id_to_str ocp_sata_transport_event_id_str 0x3 event_id buf_size)
      else if dbg_class = 0x0E then
        Success (indexed_event_id_to_str ocp_sas_phy_link_event_id_str 0x0C event_id buf_size)
      else if dbg_class = 0x0F then
        Success (indexed_event_id_to_str ocp_sas_transport_event_id_str 0x8 event_id buf_size)
      else Success None)"

definition event_id_to_str ::
    "ocp_string_def \<Rightarrow> u8 \<Rightarrow> u8 list \<Rightarrow> nat \<Rightarrow> string option option" where
  "event_id_to_str string_def dbg_class ident buf_size =
     (case class_event_id_to_str dbg_class (sg_get_unaligned_le16 ident) buf_size of
        Returns_false \<Rightarrow> Some None
      | Success (Some event_str) \<Rightarrow> Some (Some event_str)
      | Success None \<Rightarrow>
          (case event_string_map string_def (OCP_EVENT_KEY dbg_class ident) of
             Some entry \<Rightarrow>
               (case rd (ocp_string_ascii_table string_def)
                       (unat (sg_get_unaligned_le64 (entry_ascii_id_offset entry)))
                       (min (buf_size - 1) (unat (entry_ascii_id_len entry))) of
                  None \<Rightarrow> None
                | Some bytes \<Rightarrow> Some (Some (c_str bytes)))
           | None \<Rightarrow>
               if sg_get_unaligned_le16 ident \<ge> 0x8000
               then map_option Some (strncpy_str ''Vendor Unique ID'' (buf_size - 1))
               else map_option Some (strncpy_str ''Reserved ID'' (buf_size - 1))))"

text \<open>\<^verbatim>\<open>event_class_to_str\<close> (lines 548-597); \<^verbatim>\<open>%02x\<close> prints two lower-case
  hexadecimal digits.\<close>

definition hex_digit_lower :: "nat \<Rightarrow> char" where
  "hex_digit_lower n = ''0123456789abcdef'' ! n"

definition fmt_02x :: "u8 \<Rightarrow> string" where
  "fmt_02x b = [hex_digit_lower (unat b div 16), hex_digit_lower (unat b mod 16)]"

definition event_class_to_str :: "u8 \<Rightarrow> nat \<Rightarrow> string option" where
  "event_class_to_str dbg_class buf_size =
     (if dbg_class = 0x01 then strncpy_str ''Timestamp Class'' buf_size
      else if dbg_class = 0x04 then strncpy_str ''Reset Class'' buf_size
      else if dbg_class = 0x05 then strncpy_str ''Boot Sequence Class'' buf_size
      else if dbg_class = 0x06 then strncpy_str ''Firmware Assert Class'' buf_size
      else if dbg_class = 0x07 then strncpy_str ''Temperature Class'' buf_size
      else if dbg_class = 0x08 then strncpy_str ''Media Class'' buf_size
      else if dbg_class = 0x09 then strncpy_str ''Media Wear Class'' buf_size
      else if dbg_class = 0x0A then strncpy_str ''Statistic Snapshot Class'' buf_size
      else if dbg_class = 0x0B then strncpy_str ''Virtual FIFO Event Class'' buf_size
      else if dbg_class = 0x0C then strncpy_str ''SATA Phy/Link Class'' buf_size
      else if dbg_class = 0x0D then strncpy_str ''SATA Transport Class'' buf_size
      else if dbg_class = 0x0E then strncpy_str ''SAS Phy/Link Class'' buf_size
      else if dbg_class = 0x0F then strncpy_str ''SAS Transport Class'' buf_size
      else if dbg_class < 0x80 then
        Some (snprintf_str buf_size (''Unknown Class '' @ fmt_02x dbg_class))
      else Some (snprintf_str buf_size (''Vendor Unique Class '' @ fmt_02x dbg_class)))"

section \<open>Event descriptors\<close>

text \<open>
  What \<^verbatim>\<open>print_event_desc\<close> (lines 782-872) reports. An event descriptor
  (\<^verbatim>\<open>struct ocp_event_descriptor\<close>) at byte offset \<open>e\<close> has its class at \<open>e\<close>, the event
  id at \<open>e + 1\<close>, \<^verbatim>\<open>data_size\<close> at \<open>e + 3\<close> and the body at \<open>e + 4\<close>.
\<close>

datatype event_item =
    Event_heading nat
  | Class_name string
  | Event_ID string
  | Timestamp u64
  | Media_wear u32 u32 u32
  | Statistic_snapshot "stat_item list"
  | Virtual_fifo_data_area u8
  | Virtual_fifo_number u16
  | Virtual_fifo_name string
  | FIS "u8 list"
  | VU_event_id u16 "string option"
  | VU_data "u8 list"

text \<open>The case of the virtual FIFO class: the marker at the start of the body.\<close>

definition print_virtual_fifo :: "ocp_string_def \<Rightarrow> u8 list \<Rightarrow> nat \<Rightarrow> event_item list option" where
  "print_virtual_fifo string_def mem data =
     do {
       vf_marker \<leftarrow> rd mem data 2;
       let marker = sg_get_unaligned_le16 vf_marker;
       let number = marker AND 0x7ff;
       let data_area = (ucast (drop_bit 11 marker AND 0x7) :: u8);
       name \<leftarrow> event_id_to_str string_def 0x0B vf_marker OCP_STR_BUF_SIZE;
       Some (Virtual_fifo_data_area data_area #
             (case name of
                Some buffer \<Rightarrow> [Virtual_fifo_number number, Virtual_fifo_name (c_string_of buffer)]
              | None \<Rightarrow> []))
     }"

text \<open>
  The \<^verbatim>\<open>switch\<close> of \<^verbatim>\<open>print_event_desc\<close>: the items of the class, the pointer
  \<^verbatim>\<open>data\<close> and the \<^verbatim>\<open>uint8_t size\<close> behind it. The three counters of the media wear
  class are each read with \<^verbatim>\<open>sg_get_unaligned_le64\<close> and cut to 32 bits.
\<close>

definition event_class_body ::
    "ocp_string_def \<Rightarrow> u8 list \<Rightarrow> u8 \<Rightarrow> u8 list \<Rightarrow> nat \<Rightarrow> u8
       \<Rightarrow> (event_item list \<times> nat \<times> u8) option" where
  "event_class_body string_def mem dbg_class ident data sz =
     (if dbg_class = 0x01 then
        do {
          timestamp \<leftarrow> rd_le64 mem data;
          Some ([Timestamp timestamp], data + 8, sz - 8)
        }
      else if dbg_class = 0x09 then
        (if sg_get_unaligned_le16 ident = 0 then
           do {
             host_tb_written \<leftarrow> rd_le64 mem data;
             media_tb_written \<leftarrow> rd_le64 mem (data + 4);
             ssd_media_tb_erased \<leftarrow> rd_le64 mem (data + 8);
             Some ([Media_wear (ucast host_tb_written) (ucast media_tb_written)
                      (ucast ssd_media_tb_erased)], data + 12, sz - 12)
           }
         else Some ([], data + 12, sz - 12))
      else if dbg_class = 0x0A then
        do {
          r \<leftarrow> ocp_print_stat_desc string_def mem data;
          Some ([Statistic_snapshot (snd r)], data, 0)
        }
      else if dbg_class = 0x0B then
        do {
          items \<leftarrow> print_virtual_fifo string_def mem data;
          Some (items, data + 4, sz - 4)
        }
      else if dbg_class = 0x0D then
        do {
          fis \<leftarrow> hex_dump_line mem data 28;
          Some ([FIS fis], data + 28, sz - 28)
        }
      else Some ([], data, sz))"

text \<open>The two vendor-unique parts at the end of \<^verbatim>\<open>print_event_desc\<close>.\<close>

definition event_vu_tail ::
    "ocp_string_def \<Rightarrow> u8 list \<Rightarrow> u8 \<Rightarrow> nat \<Rightarrow> u8 \<Rightarrow> event_item list option" where
  "event_vu_tail string_def mem dbg_class data sz =
     do {
       vu \<leftarrow>
         (if sz > 0 \<and> dbg_class < 0x80 then
            do {
              vu_id \<leftarrow> rd mem data 2;
              name \<leftarrow> event_id_to_str string_def dbg_class vu_id OCP_STR_BUF_SIZE;
              Some ([VU_event_id (sg_get_unaligned_le16 vu_id) name], data + 2, sz - 2)
            }
          else Some ([], data, sz));
       vu_data \<leftarrow>
         (if snd (snd vu) > 0 then
            map_option (\<lambda>bytes. [VU_data bytes])
              (hex_dump_line mem (fst (snd vu)) (unat (snd (snd vu))))
          else Some []);
       Some (fst vu @ vu_data)
     }"

definition print_event_desc ::
    "ocp_string_def \<Rightarrow> u8 list \<Rightarrow> u8 \<Rightarrow> nat \<Rightarrow> nat \<Rightarrow> u8 \<Rightarrow> event_item list option" where
  "print_event_desc string_def mem dbg_class ident_at data sz =
     do {
       class_str \<leftarrow> event_class_to_str dbg_class OCP_STR_BUF_SIZE;
       ident \<leftarrow> rd mem ident_at 2;
       name \<leftarrow> event_id_to_str string_def dbg_class ident OCP_STR_BUF_SIZE;
       body \<leftarrow> event_class_body string_def mem dbg_class ident data sz;
       tail \<leftarrow> event_vu_tail string_def mem dbg_class (fst (snd body)) (snd (snd body));
       Some (Class_name class_str #
             (case name of Some buffer \<Rightarrow> [Event_ID (c_string_of buffer)] | None \<Rightarrow> []) @
             fst body @ tail)
     }"

section \<open>The event walk\<close>

text \<open>
  \<^verbatim>\<open>ocp_get_event_desc_dwords\<close> (lines 874-887): the length of the event descriptor at
  byte offset \<open>e\<close>, where \<open>max_size\<close> bytes are left. \<open>sizeof *e\<close> is 4 and \<open>sizeof *s\<close>
  is 8.
\<close>

definition ocp_get_event_desc_dwords :: "u8 list \<Rightarrow> nat \<Rightarrow> nat \<Rightarrow> nat option" where
  "ocp_get_event_desc_dwords mem e max_size =
     do {
       debug_event_class_type \<leftarrow> rd_u8 mem e;
       if debug_event_class_type = 0x0A then
         (if max_size < 4 + 8 then Some (4 + 8)
          else do {
            statistic_data_size \<leftarrow> rd_le16 mem (e + 4 + 6);
            Some (drop_bit 2 4 + drop_bit 2 8 + unat statistic_data_size)
          })
       else do {
         data_size \<leftarrow> rd_u8 mem (e + 3);
         Some (drop_bit 2 4 + unat data_size)
       }
     }"

text \<open>
  \<^verbatim>\<open>ocp_print_telemetry_events\<close> (lines 889-918), in the shape of the statistics walk.
  The size passed to \<^verbatim>\<open>print_event_desc\<close> is \<^verbatim>\<open>ep->data_size << 2\<close> cut to
  \<^verbatim>\<open>uint8_t\<close>.
\<close>

definition event_step :: "ocp_string_def \<Rightarrow> u8 list \<Rightarrow> nat \<Rightarrow> nat \<Rightarrow> nat \<Rightarrow> event_item step" where
  "event_step string_def mem pos dwords idx =
     (if dwords = 0 then Stop Exhausted
      else
        (case rd_u8 mem (4 * pos) of
           None \<Rightarrow> Stop Out_of_bounds_read
         | Some debug_event_class_type \<Rightarrow>
             if debug_event_class_type = 0 then Stop End_of_list
             else
               (case ocp_get_event_desc_dwords mem (4 * pos) ((4 * dwords) mod 2 ^ 64) of
                  None \<Rightarrow> Stop Out_of_bounds_read
                | Some dwords_consumed \<Rightarrow>
                    (case rd_u8 mem (4 * pos + 3) of
                       None \<Rightarrow> Stop Out_of_bounds_read
                     | Some data_size \<Rightarrow>
                         (case print_event_desc string_def mem debug_event_class_type
                                 (4 * pos + 1) (4 * pos + 4) (push_bit 2 data_size) of
                            None \<Rightarrow> Stop Out_of_bounds_read
                          | Some items \<Rightarrow>
                              Next dwords_consumed True (Event_heading idx # items))))))"

lemma event_step_Next:
  assumes "event_step string_def mem pos dwords idx = Next dwords_consumed printed items"
  shows "1 \<le> dwords_consumed" and "4 * pos < length mem"
  using assms
  by (auto simp: event_step_def ocp_get_event_desc_dwords_def rd_u8_def drop_bit_eq_div
      split: if_splits option.splits Option.bind_splits)

function events_walk ::
    "ocp_string_def \<Rightarrow> u8 list \<Rightarrow> nat \<Rightarrow> nat \<Rightarrow> nat \<Rightarrow> (nat \<times> event_item list) list \<times> walk_end" where
  "events_walk string_def mem pos dwords idx =
     (case event_step string_def mem pos dwords idx of
        Stop e \<Rightarrow> ([], e)
      | Next dwords_consumed printed items \<Rightarrow>
          prepend_record (dwords_consumed, items)
            (events_walk string_def mem (pos + dwords_consumed)
               (size_t_sub dwords dwords_consumed) ((idx + 1) mod 2 ^ 32)))"
  by pat_completeness auto
termination
proof (relation "measure (\<lambda>(string_def, mem, pos, dwords, idx). length mem - 4 * pos)")
  show "wf (measure (\<lambda>(string_def :: ocp_string_def, mem :: u8 list, pos :: nat, dwords :: nat,
                       idx :: nat). length mem - 4 * pos))"
    by simp
next
  fix string_def :: ocp_string_def and mem :: "u8 list" and pos dwords idx dwords_consumed :: nat
    and printed :: bool and items :: "event_item list"
  assume "event_step string_def mem pos dwords idx = Next dwords_consumed printed items"
  then have "1 \<le> dwords_consumed" and "4 * pos < length mem"
    by (rule event_step_Next)+
  then show "((string_def, mem, pos + dwords_consumed, size_t_sub dwords dwords_consumed,
               (idx + 1) mod 2 ^ 32),
              (string_def, mem, pos, dwords, idx))
             \<in> measure (\<lambda>(string_def, mem, pos, dwords, idx). length mem - 4 * pos)"
    by simp
qed

declare events_walk.simps [simp del]

definition ocp_print_telemetry_events ::
    "ocp_string_def \<Rightarrow> u8 list \<Rightarrow> nat \<Rightarrow> nat \<Rightarrow> (nat \<times> event_item list) list \<times> walk_end" where
  "ocp_print_telemetry_events string_def mem log_page dwords =
     events_walk string_def mem log_page dwords 0"

lemma events_walk_Stop:
  "event_step string_def mem pos dwords idx = Stop e \<Longrightarrow>
   events_walk string_def mem pos dwords idx = ([], e)"
  by (subst events_walk.simps) simp

lemma events_walk_record:
  assumes "event_step string_def mem pos dwords idx = Next dwords_consumed printed items"
    and "pos' = pos + dwords_consumed"
    and "dwords' = size_t_sub dwords dwords_consumed"
    and "idx' = (idx + 1) mod 2 ^ 32"
    and "events_walk string_def mem pos' dwords' idx' = (records, e)"
  shows "events_walk string_def mem pos dwords idx = ((dwords_consumed, items) # records, e)"
  using assms by (subst events_walk.simps) (simp add: prepend_record_def)

text \<open>The length rule of the event walk, for a descriptor whose header can be read.\<close>

lemma event_desc_dwords_rule:
  assumes "rd_u8 mem e = Some class" and "rd_u8 mem (e + 3) = Some data_size"
  shows "class \<noteq> 0x0A \<Longrightarrow> ocp_get_event_desc_dwords mem e max_size = Some (1 + unat data_size)"
    and "class = 0x0A \<Longrightarrow> 12 \<le> max_size \<Longrightarrow> rd_le16 mem (e + 10) = Some statistic_data_size \<Longrightarrow>
           ocp_get_event_desc_dwords mem e max_size = Some (1 + 2 + unat statistic_data_size)"
    and "class = 0x0A \<Longrightarrow> max_size < 12 \<Longrightarrow> ocp_get_event_desc_dwords mem e max_size = Some 12"
  using assms by (simp_all add: ocp_get_event_desc_dwords_def drop_bit_eq_div add.assoc)

definition snapshot_fifo_region :: "u8 list" where
  "snapshot_fifo_region = [0x0A, 0x00, 0x00, 0x00]"

text \<open>
  Claim C2. The claim: when the remaining buffer is too small for the 4-byte event header
  and the 8-byte statistic header of a statistic snapshot, the record is reported as
  truncated and the walk stops. For a FIFO region of one dword that holds a statistic
  snapshot header, \<^verbatim>\<open>ocp_get_event_desc_dwords\<close> returns 12, the number of bytes of the
  two headers, where a number of dwords is expected. The walk prints the descriptor,
  reading the embedded statistic descriptor behind the region, takes 12 from the count of
  1, which wraps to \<open>2^64 - 11\<close>, and goes on at dword 12. Nothing reports a truncation.
\<close>

theorem events_walk_truncated_snapshot:
  "length snapshot_fifo_region = 4 * 1
   \<and> ocp_get_event_desc_dwords snapshot_fifo_region 0 (4 * 1) = Some 12
   \<and> size_t_sub 1 12 = 2 ^ 64 - 11
   \<and> ocp_print_telemetry_events example_catalog
         (snapshot_fifo_region @ power_on_hours_record @ replicate 36 0) 0 1
       = ([(12, [Event_heading 0, Class_name ''Statistic Snapshot Class'',
                 Statistic_snapshot [Report power_on_hours_report]])], End_of_list)
   \<and> ocp_print_telemetry_events example_catalog snapshot_fifo_region 0 1
       = ([], Out_of_bounds_read)"
proof -
  let ?mem = "snapshot_fifo_region @ power_on_hours_record @ replicate 36 0"
  have l: "length snapshot_fifo_region = 4 * 1"
    by (simp add: snapshot_fifo_region_def)
  have g: "ocp_get_event_desc_dwords snapshot_fifo_region 0 (4 * 1) = Some 12"
    by (simp add: ocp_get_event_desc_dwords_def snapshot_fifo_region_def rd_u8_def)
  have w: "size_t_sub 1 12 = 2 ^ 64 - 11"
    by (simp add: size_t_sub_def)
  have p: "ocp_print_stat_desc example_catalog ?mem 4 = Some (True, [Report power_on_hours_report])"
    by (simp add: stat_eval snapshot_fifo_region_def power_on_hours_record_def name_2003
        power_on_hours_report_def)
  have c: "event_class_to_str 0x0A OCP_STR_BUF_SIZE = Some ''Statistic Snapshot Class''"
    by (simp add: event_class_to_str_def strncpy_str_def OCP_STR_BUF_SIZE_def)
  have n: "event_id_to_str example_catalog 0x0A ident OCP_STR_BUF_SIZE = Some None" for ident
    by (simp add: event_id_to_str_def class_event_id_to_str_def)
  have pe: "print_event_desc example_catalog ?mem 0x0A (Suc 0) 4 0
              = Some [Class_name ''Statistic Snapshot Class'',
                      Statistic_snapshot [Report power_on_hours_report]]"
    by (simp add: print_event_desc_def c n event_class_body_def p event_vu_tail_def)
      (simp add: snapshot_fifo_region_def rd_def)
  have r0: "rd_u8 ?mem 0 = Some 0x0A" and r3: "rd_u8 ?mem 3 = Some 0"
    by (simp_all add: snapshot_fifo_region_def rd_u8_def)
  have g1: "ocp_get_event_desc_dwords ?mem 0 4 = Some 12"
    by (simp add: ocp_get_event_desc_dwords_def r0)
  have s1: "event_step example_catalog ?mem 0 1 0
              = Next 12 True [Event_heading 0, Class_name ''Statistic Snapshot Class'',
                              Statistic_snapshot [Report power_on_hours_report]]"
    by (simp add: event_step_def r0 r3 g1 pe)
  have s2: "event_step example_catalog ?mem 12 (2 ^ 64 - 11) 1 = Stop End_of_list"
    by (simp add: event_step_def snapshot_fifo_region_def power_on_hours_record_def rd_u8_def
        nth_append)
  have a: "ocp_print_telemetry_events example_catalog ?mem 0 1
       = ([(12, [Event_heading 0, Class_name ''Statistic Snapshot Class'',
                 Statistic_snapshot [Report power_on_hours_report]])], End_of_list)"
    unfolding ocp_print_telemetry_events_def
    by (rule events_walk_record [OF s1 _ _ _ events_walk_Stop [OF s2]])
      (simp_all add: size_t_sub_def)
  have s3: "event_step example_catalog snapshot_fifo_region 0 1 0 = Stop Out_of_bounds_read"
    by (simp add: event_step_def ocp_get_event_desc_dwords_def snapshot_fifo_region_def
        rd_u8_def print_event_desc_def c n event_class_body_def rd_def
        ocp_print_stat_desc_def)
  have b: "ocp_print_telemetry_events example_catalog snapshot_fifo_region 0 1
       = ([], Out_of_bounds_read)"
    unfolding ocp_print_telemetry_events_def by (rule events_walk_Stop [OF s3])
  from l g w a b show ?thesis by (intro conjI)
qed


section \<open>Virtual FIFO markers\<close>

lemma event_key_le16:
  "OCP_EVENT_KEY class [m0, m1]
     = push_bit 16 (ucast class) OR ucast (sg_get_unaligned_le16 [m0, m1])"
proof -
  have "(ucast (word_cat m1 m0 :: u16) :: u32) = push_bit 8 (ucast m1) OR ucast m0"
    by (rule bit_word_eqI) (auto simp: bit_simps dest: bit_imp_le_length)
  then show ?thesis
    by (simp add: OCP_EVENT_KEY_def sg_get_unaligned_le16_def or.assoc)
qed

text \<open>The name that the event-string map holds for a key: the bytes of its entry in the
  ASCII blob.\<close>

definition catalog_event_name :: "ocp_string_def \<Rightarrow> u32 \<Rightarrow> string option" where
  "catalog_event_name string_def key =
     (case event_string_map string_def key of
        None \<Rightarrow> None
      | Some entry \<Rightarrow>
          map_option c_str
            (rd (ocp_string_ascii_table string_def)
               (unat (sg_get_unaligned_le64 (entry_ascii_id_offset entry)))
               (unat (entry_ascii_id_len entry))))"

lemma virtual_fifo_name_cases:
  "event_id_to_str string_def 0x0B [m0, m1] OCP_STR_BUF_SIZE =
     (let m = sg_get_unaligned_le16 [m0, m1] in
      if m \<le> 1 then Some (Some (ocp_virtual_fifo_event_id_str ! unat m))
      else
        (case event_string_map string_def (push_bit 16 0x0B OR ucast m) of
           Some entry \<Rightarrow>
             map_option Some (catalog_event_name string_def (push_bit 16 0x0B OR ucast m))
         | None \<Rightarrow> Some (Some (if m \<ge> 0x8000 then ''Vendor Unique ID'' else ''Reserved ID''))))"
proof -
  define m where "m = sg_get_unaligned_le16 [m0, m1]"
  have key: "OCP_EVENT_KEY 0x0B [m0, m1] = push_bit 16 0x0B OR ucast m"
    by (simp add: event_key_le16 m_def)
  have len: "min (OCP_STR_BUF_SIZE - Suc 0) (unat (entry_ascii_id_len e)) = unat (entry_ascii_id_len e)"
    for e :: ocp_event_id_string_table_entry
    using unat_u8_lt [of "entry_ascii_id_len e"] by (simp add: OCP_STR_BUF_SIZE_def)
  have sw: "class_event_id_to_str 0x0B m OCP_STR_BUF_SIZE =
              Success (if m \<le> 1 then Some (ocp_virtual_fifo_event_id_str ! unat m) else None)"
  proof (cases "m \<le> 1")
    case True
    then have "unat m \<le> 1" by (simp add: word_le_nat_alt)
    then have "unat m = 0 \<or> unat m = 1" by arith
    then have "length (ocp_virtual_fifo_event_id_str ! unat m) < OCP_STR_BUF_SIZE - 1"
      by (auto simp: ocp_virtual_fifo_event_id_str_def OCP_STR_BUF_SIZE_def)
    then show ?thesis
      using True
      by (simp add: class_event_id_to_str_def virtual_fifo_event_id_to_str_def
          indexed_event_id_to_str_def snprintf_str_def)
  next
    case False
    then show ?thesis
      by (simp add: class_event_id_to_str_def virtual_fifo_event_id_to_str_def
          indexed_event_id_to_str_def)
  qed
  have v: "strncpy_str ''Vendor Unique ID'' (OCP_STR_BUF_SIZE - Suc 0) = Some ''Vendor Unique ID''"
    and r: "strncpy_str ''Reserved ID'' (OCP_STR_BUF_SIZE - Suc 0) = Some ''Reserved ID''"
    by (simp_all add: strncpy_str_def OCP_STR_BUF_SIZE_def)
  show ?thesis
    unfolding event_id_to_str_def m_def [symmetric] Let_def sw key
    by (auto simp: catalog_event_name_def len v r split: option.splits)
qed

text \<open>
  Claim C7, as stated, with its example: the marker bytes \<open>31 04\<close> yield the number
  \<open>0x031\<close>, and the name of the virtual FIFO is found by looking the marker up under key
  \<open>(0x0B << 16) | m\<close> in the event-string map. The marker \<open>0x0431\<close> has bit 10 set, which
  belongs to the number: the code reports \<open>0x0431 & 0x7FF = 0x431\<close>. And for the marker
  bytes \<open>00 00\<close>, where the catalog holds the name \<open>ZEROZ\<close> under key \<open>0x0B0000\<close>, the code
  reports the built-in event name \<open>Virtual FIFO Start\<close>: the marker goes through the name
  resolution of event ids, which tries the built-in ids 0 and 1 of the class first.
\<close>

theorem virtual_fifo_name_counterexample:
  "print_virtual_fifo example_catalog [0x31, 0x04, 0x00, 0x00] 0
       = Some [Virtual_fifo_data_area 0, Virtual_fifo_number 0x431,
               Virtual_fifo_name ''FIFOA'']
   \<and> (0x431 :: u16) \<noteq> 0x031
   \<and> catalog_event_name example_catalog
       (push_bit 16 0x0B OR ucast (sg_get_unaligned_le16 [0x00, 0x00])) = Some ''ZEROZ''
   \<and> print_virtual_fifo example_catalog [0x00, 0x00, 0x00, 0x00] 0
       = Some [Virtual_fifo_data_area 0, Virtual_fifo_number 0,
               Virtual_fifo_name ''Virtual FIFO Start'']"
proof -
  have m: "sg_get_unaligned_le16 [0x00, 0x00] = 0"
    by (simp add: sg_get_unaligned_le16_def word_cat_eq)
  have m': "sg_get_unaligned_le16 [0x31, 0x04] = 0x0431"
    by (simp add: sg_get_unaligned_le16_def word_cat_eq)
  have a: "catalog_event_name example_catalog (push_bit 16 0x0B OR ucast (0 :: u16)) = Some ''ZEROZ''"
    by (simp add: catalog_event_name_def example_catalog_def rd_def sg_get_unaligned_le64_def
        sg_get_unaligned_le32_def word_cat_eq c_str_def char_of_def bit_0)
  have a': "catalog_event_name example_catalog 0x0B0431 = Some ''FIFOA''"
    by (simp add: catalog_event_name_def example_catalog_def rd_def sg_get_unaligned_le64_def
        sg_get_unaligned_le32_def word_cat_eq c_str_def char_of_def bit_0)
  have e: "event_string_map example_catalog 0x0B0431
             = Some \<lparr>entry_dbg_class = 0x0B, entry_id = [0x31, 0x04],
                     entry_ascii_id_len = 5,
                     entry_ascii_id_offset = [7, 0, 0, 0, 0, 0, 0, 0]\<rparr>"
    by (simp add: example_catalog_def)
  have b: "print_virtual_fifo example_catalog [0x00, 0x00, 0x00, 0x00] 0
       = Some [Virtual_fifo_data_area 0, Virtual_fifo_number 0,
               Virtual_fifo_name ''Virtual FIFO Start'']"
    by (simp add: print_virtual_fifo_def rd_def virtual_fifo_name_cases m
        ocp_virtual_fifo_event_id_str_def c_string_of_def NUL_def)
  have b': "print_virtual_fifo example_catalog [0x31, 0x04, 0x00, 0x00] 0
       = Some [Virtual_fifo_data_area 0, Virtual_fifo_number 0x431,
               Virtual_fifo_name ''FIFOA'']"
    by (simp add: print_virtual_fifo_def rd_def virtual_fifo_name_cases m' e a'
        c_string_of_def NUL_def word_le_nat_alt)
  have d: "(0x431 :: u16) \<noteq> 0x031"
    by simp
  show ?thesis
    unfolding m using b' d a b by (intro conjI)
qed

text \<open>
  Claim C7, amended: for an event of class 0x0B whose body begins with the marker \<open>m\<close>
  (16 bits, little-endian), the decoder reports the data area \<open>(m >> 11) & 0x7\<close>, the
  number \<open>m & 0x7FF\<close> and a name. The name is the built-in event name of the class for
  \<open>m \<le> 1\<close> (\<open>Virtual FIFO Start\<close>, \<open>Virtual FIFO End\<close>); else the name that the
  event-string map holds under key \<open>(0x0B << 16) | m\<close>; else, the key being absent,
  \<open>Vendor Unique ID\<close> for \<open>m \<ge> 0x8000\<close> and \<open>Reserved ID\<close> below. The body takes four
  bytes of the descriptor. A name that lies outside the ASCII blob is a read out of
  bounds.
\<close>

theorem virtual_fifo_marker_decoding:
  assumes "rd mem data 2 = Some [m0, m1]"
  shows "event_class_body string_def mem 0x0B ident data sz =
     (let m = sg_get_unaligned_le16 [m0, m1];
          key = push_bit 16 0x0B OR ucast m
      in map_option
           (\<lambda>name. ([Virtual_fifo_data_area (ucast (drop_bit 11 m AND 0x7)),
                      Virtual_fifo_number (m AND 0x7ff),
                      Virtual_fifo_name (c_string_of name)], data + 4, sz - 4))
           (if m \<le> 1 then Some (ocp_virtual_fifo_event_id_str ! unat m)
            else
              (case event_string_map string_def key of
                 Some entry \<Rightarrow> catalog_event_name string_def key
               | None \<Rightarrow> Some (if m \<ge> 0x8000 then ''Vendor Unique ID'' else ''Reserved ID''))))"
proof -
  have bnd: "(map_option Some x \<bind> (\<lambda>y. Some (g y))) = map_option (\<lambda>n. g (Some n)) x"
    for x :: "string option" and g :: "string option \<Rightarrow> event_item list \<times> nat \<times> u8"
    by (cases x) simp_all
  show ?thesis
    using assms
    by (auto simp: event_class_body_def print_virtual_fifo_def virtual_fifo_name_cases Let_def
        bnd split: option.splits)
qed

theorem virtual_fifo_marker_decoding_witness:
  "rd [0x31, 0x04, 0x00, 0x00] 0 2 = Some [0x31, 0x04]
   \<and> event_class_body example_catalog [0x31, 0x04, 0x00, 0x00] 0x0B [0x00, 0x00] 0 4
       = Some ([Virtual_fifo_data_area 0, Virtual_fifo_number 0x431,
                Virtual_fifo_name ''FIFOA''], 4, 0)"
proof -
  have r: "rd [0x31, 0x04, 0x00, 0x00] 0 2 = Some [0x31, 0x04]"
    by (simp add: rd_def)
  have m: "sg_get_unaligned_le16 [0x31, 0x04] = 0x0431"
    by (simp add: sg_get_unaligned_le16_def word_cat_eq)
  have k: "push_bit 16 0x0B OR ucast (0x0431 :: u16) = (0x0B0431 :: u32)"
    by simp
  have e: "event_string_map example_catalog 0x0B0431
             = Some \<lparr>entry_dbg_class = 0x0B, entry_id = [0x31, 0x04],
                     entry_ascii_id_len = 5,
                     entry_ascii_id_offset = [7, 0, 0, 0, 0, 0, 0, 0]\<rparr>"
    by (simp add: example_catalog_def)
  have n: "catalog_event_name example_catalog 0x0B0431 = Some ''FIFOA''"
    by (simp add: catalog_event_name_def example_catalog_def rd_def sg_get_unaligned_le64_def
        sg_get_unaligned_le32_def word_cat_eq c_str_def char_of_def bit_0)
  have c: "c_string_of ''FIFOA'' = ''FIFOA''"
    by (simp add: c_string_of_def NUL_def)
  have a: "(ucast (drop_bit 11 (0x0431 :: u16) AND 0x7) :: u8) = 0"
    and b: "(0x0431 :: u16) AND 0x7ff = 0x431"
    and l: "\<not> (0x0431 :: u16) \<le> 1"
    by (simp_all add: word_le_nat_alt)
  have "event_class_body example_catalog [0x31, 0x04, 0x00, 0x00] 0x0B [0x00, 0x00] 0 4
          = map_option
              (\<lambda>name. ([Virtual_fifo_data_area (ucast (drop_bit 11 (0x0431 :: u16) AND 0x7)),
                         Virtual_fifo_number (0x0431 AND 0x7ff),
                         Virtual_fifo_name (c_string_of name)], 0 + 4, 4 - 4))
              (catalog_event_name example_catalog 0x0B0431)"
    using virtual_fifo_marker_decoding [OF r, of example_catalog "[0x00, 0x00]" 4]
    by (simp only: m Let_def k e l if_False option.case)
  then show ?thesis
    by (simp add: r n c a b)
qed

end
